theory Spec2Isabelle
  imports Main
begin

section \<open>Paths, file system and external processes\<close>

text \<open>
  A path is the list of its components, as \<^verbatim>\<open>pathlib.PurePath.parts\<close> gives them: an
  absolute path starts with the component \<^verbatim>\<open>/\<close>, and \<^verbatim>\<open>Path('.')\<close> is the empty list.
  File names are byte strings; the scripts only inspect the dot and ASCII letters of a name.
\<close>

type_synonym path = "string list"

datatype node = File nat | Dir nat

type_synonym fs = "path \<rightharpoonup> node"

datatype py_error =
    FileNotFoundError
  | FileExistsError
  | NotADirectoryError
  | IsADirectoryError
  | KeyError
  | ValueError
  | ZeroDivisionError
  | OtherException

definition os_path_exists :: "fs \<Rightarrow> path \<Rightarrow> bool" where
  "os_path_exists fs p = (fs p \<noteq> None)"

definition os_path_isfile :: "fs \<Rightarrow> path \<Rightarrow> bool" where
  "os_path_isfile fs p = (case fs p of Some (File n) \<Rightarrow> True | _ \<Rightarrow> False)"

definition os_path_isdir :: "fs \<Rightarrow> path \<Rightarrow> bool" where
  "os_path_isdir fs p = (case fs p of Some (Dir n) \<Rightarrow> True | _ \<Rightarrow> False)"

text \<open>
  \<^verbatim>\<open>os.path.getsize\<close>. Every call in the scripts is guarded by \<^verbatim>\<open>os.path.exists\<close> on the same
  path, so the value at a missing path is never read.
\<close>

definition os_path_getsize :: "fs \<Rightarrow> path \<Rightarrow> nat" where
  "os_path_getsize fs p = (case fs p of Some (File n) \<Rightarrow> n | Some (Dir n) \<Rightarrow> n | None \<Rightarrow> 0)"

text \<open>\<^verbatim>\<open>PurePath.parent\<close>: the anchor and the empty path are their own parents.\<close>

definition parent :: "path \<Rightarrow> path" where
  "parent p = (if p = [] \<or> p = [''/''] then p else butlast p)"

text \<open>
  \<^verbatim>\<open>os.path.dirname(str(p))\<close> for a path with a final name component. The result \<open>[]\<close>
  stands for the empty string that Python returns for a bare file name.
\<close>

definition os_path_dirname :: "path \<Rightarrow> path" where
  "os_path_dirname p = (if p = [''/''] then p else butlast p)"

definition os_path_basename :: "path \<Rightarrow> string" where
  "os_path_basename p = (if p = [] then [] else last p)"

definition dir_size :: nat where
  "dir_size = 4096"

text \<open>\<^verbatim>\<open>os.mkdir\<close>: one level, fails when the path exists or its parent is not a directory.\<close>

definition os_mkdir :: "fs \<Rightarrow> path \<Rightarrow> py_error + fs" where
  "os_mkdir fs p =
     (if fs p \<noteq> None then Inl FileExistsError
      else if p = [] then Inl FileNotFoundError
      else (case fs (butlast p) of
              None \<Rightarrow> Inl FileNotFoundError
            | Some (File n) \<Rightarrow> Inl NotADirectoryError
            | Some (Dir n) \<Rightarrow> Inr (fs(p \<mapsto> Dir dir_size))))"

text \<open>
  The second attempt of \<^verbatim>\<open>Path.mkdir\<close> and the last step of \<^verbatim>\<open>os.makedirs\<close>, both with
  \<^verbatim>\<open>exist_ok=True\<close>: an \<^verbatim>\<open>OSError\<close> is swallowed when the path is a directory.
\<close>

definition mkdir_exist_ok :: "fs \<Rightarrow> path \<Rightarrow> py_error + fs" where
  "mkdir_exist_ok fs p =
     (case os_mkdir fs p of
        Inr fs' \<Rightarrow> Inr fs'
      | Inl e \<Rightarrow> if os_path_isdir fs p then Inr fs else Inl e)"

text \<open>\<^verbatim>\<open>Path.mkdir(parents=True, exist_ok=True)\<close>; here \<open>[]\<close> is \<^verbatim>\<open>Path('.')\<close>.\<close>

function path_mkdir :: "fs \<Rightarrow> path \<Rightarrow> py_error + fs" where
  "path_mkdir fs p =
     (case os_mkdir fs p of
        Inr fs' \<Rightarrow> Inr fs'
      | Inl e \<Rightarrow>
          if e = FileNotFoundError then
            (if parent p = p then Inl FileNotFoundError
             else (case path_mkdir fs (parent p) of
                     Inl e' \<Rightarrow> Inl e'
                   | Inr fs1 \<Rightarrow>
                       (case os_mkdir fs1 p of
                          Inr fs2 \<Rightarrow> Inr fs2
                        | Inl e2 \<Rightarrow>
                            if e2 = FileNotFoundError then Inl FileNotFoundError
                            else if os_path_isdir fs1 p then Inr fs1 else Inl e2)))
          else if os_path_isdir fs p then Inr fs else Inl e)"
  by pat_completeness auto
termination
  by (relation "measure (\<lambda>(fs, p). length p)") (auto simp: parent_def split: if_splits)

declare path_mkdir.simps [simp del]

text \<open>
  \<^verbatim>\<open>os.makedirs(name, exist_ok=True)\<close> on the string of a path; here \<open>[]\<close> is the empty
  string, for which \<^verbatim>\<open>os.mkdir\<close> raises \<^verbatim>\<open>FileNotFoundError\<close> and \<^verbatim>\<open>os.path.isdir\<close> is false.
\<close>

function os_makedirs :: "fs \<Rightarrow> path \<Rightarrow> py_error + fs" where
  "os_makedirs fs p =
     (if p = [] then Inl FileNotFoundError
      else
        (case (if butlast p \<noteq> [] \<and> \<not> os_path_exists fs (butlast p)
               then (case os_makedirs fs (butlast p) of
                       Inl e \<Rightarrow> if e = FileExistsError then Inr fs else Inl e
                     | Inr fs1 \<Rightarrow> Inr fs1)
               else Inr fs) of
           Inl e \<Rightarrow> Inl e
         | Inr fs1 \<Rightarrow> mkdir_exist_ok fs1 p))"
  by pat_completeness auto
termination
  by (relation "measure (\<lambda>(fs, p). length p)") auto

declare os_makedirs.simps [simp del]

text \<open>\<^verbatim>\<open>os.unlink\<close> / \<^verbatim>\<open>os.remove\<close>: removes a file, refuses a directory.\<close>

definition os_unlink :: "fs \<Rightarrow> path \<Rightarrow> py_error + fs" where
  "os_unlink fs p =
     (case fs p of
        None \<Rightarrow> Inl FileNotFoundError
      | Some (Dir n) \<Rightarrow> Inl IsADirectoryError
      | Some (File n) \<Rightarrow> Inr (fs(p := None)))"

text \<open>
  \<^verbatim>\<open>str(path)\<close>: the components joined by \<^verbatim>\<open>/\<close>.
\<close>

fun join_parts :: "string list \<Rightarrow> string" where
  "join_parts [] = []"
| "join_parts [x] = x"
| "join_parts (x # y # ys) = x @ ''/'' @ join_parts (y # ys)"

definition path_str :: "path \<Rightarrow> string" where
  "path_str p =
     (case p of
        [] \<Rightarrow> ''.''
      | x # xs \<Rightarrow> if x = ''/'' then ''/'' @ join_parts xs else join_parts p)"

text \<open>\<^verbatim>\<open>str(n)\<close> for an integer.\<close>

definition digit_char :: "nat \<Rightarrow> char" where
  "digit_char d = char_of (48 + d)"

function str_nat :: "nat \<Rightarrow> string" where
  "str_nat n = (if n < 10 then [digit_char n] else str_nat (n div 10) @ [digit_char (n mod 10)])"
  by pat_completeness auto
termination
  by (relation "measure id") auto

declare str_nat.simps [simp del]

definition str_int :: "int \<Rightarrow> string" where
  "str_int i = (if i < 0 then ''-'' @ str_nat (nat (- i)) else str_nat (nat i))"

text \<open>
  A Python text (the error stream of a process, a message, a recognised text) is the list
  of its Unicode code points; \<^verbatim>\<open>str.strip\<close> removes the characters for which \<^verbatim>\<open>str.isspace\<close>
  holds from both ends.
\<close>

type_synonym pytext = "nat list"

definition py_isspace :: "nat \<Rightarrow> bool" where
  "py_isspace c =
     ((0x09 \<le> c \<and> c \<le> 0x0D) \<or> (0x1C \<le> c \<and> c \<le> 0x20) \<or> c = 0x85 \<or> c = 0xA0
      \<or> c = 0x1680 \<or> (0x2000 \<le> c \<and> c \<le> 0x200A) \<or> c = 0x2028 \<or> c = 0x2029
      \<or> c = 0x202F \<or> c = 0x205F \<or> c = 0x3000)"

definition strip_with :: "('a \<Rightarrow> bool) \<Rightarrow> 'a list \<Rightarrow> 'a list" where
  "strip_with sp s = rev (dropWhile sp (rev (dropWhile sp s)))"

definition strip :: "pytext \<Rightarrow> pytext" where
  "strip s = strip_with py_isspace s"

text \<open>The text of a path or of another ASCII string.\<close>

definition text_of :: "string \<Rightarrow> pytext" where
  "text_of s = map of_char s"

text \<open>\<^verbatim>\<open>word in s\<close> for two texts.\<close>

fun str_contains :: "pytext \<Rightarrow> pytext \<Rightarrow> bool" where
  "str_contains [] word = (word = [])"
| "str_contains (c # cs) word =
     (take (length word) (c # cs) = word \<or> str_contains cs word)"

text \<open>
  What \<^verbatim>\<open>subprocess.run(cmd, capture_output=True, text=True, timeout=t)\<close> can do: the process
  exits with a return code and an error stream, the timeout expires, or another exception
  is raised (for instance the binary is missing).
\<close>

datatype run_outcome =
    CompletedProcess int pytext
  | TimeoutExpired
  | RunException

text \<open>
  The external tool: from the argument vector and the file system before the call to the
  outcome and the file system after it.
\<close>

type_synonym tool = "string list \<Rightarrow> fs \<Rightarrow> run_outcome \<times> fs"

section \<open>video2audio.py: converting one video\<close>

record format_config =
  ext :: string
  codec :: string
  args :: "string list"
  bitrate :: "string option"

definition AUDIO_FORMATS :: "string \<rightharpoonup> format_config" where
  "AUDIO_FORMATS =
     [''mp3'' \<mapsto> \<lparr>ext = ''.mp3'', codec = ''libmp3lame'', args = [''-q:a'', ''2''],
                  bitrate = Some ''192k''\<rparr>,
      ''aac'' \<mapsto> \<lparr>ext = ''.m4a'', codec = ''aac'', args = [''-b:a'', ''192k''],
                  bitrate = Some ''192k''\<rparr>,
      ''flac'' \<mapsto> \<lparr>ext = ''.flac'', codec = ''flac'', args = [''-compression_level'', ''8''],
                   bitrate = None\<rparr>,
      ''wav'' \<mapsto> \<lparr>ext = ''.wav'', codec = ''pcm_s16le'', args = [], bitrate = None\<rparr>,
      ''opus'' \<mapsto> \<lparr>ext = ''.opus'', codec = ''libopus'', args = [''-b:a'', ''128k''],
                   bitrate = Some ''128k''\<rparr>,
      ''ogg'' \<mapsto> \<lparr>ext = ''.ogg'', codec = ''libvorbis'', args = [''-q:a'', ''5''],
                  bitrate = None\<rparr>]"

text \<open>
  The second component of the pair that \<^verbatim>\<open>convert_video_to_audio\<close> returns. The source
  texts are Chinese; each constructor stands for one of them:
  \<open>VideoMissing\<close> "video file does not exist", \<open>OutputExists\<close> "output file already exists",
  \<open>UnsupportedFormat\<close> "unsupported audio format", \<open>ConvertOK\<close> "conversion succeeded",
  \<open>EmptyOrMissing\<close> "file empty or missing after conversion", \<open>FfmpegError\<close> "ffmpeg error:"
  followed by the stripped error stream (or by "unknown error"), \<open>ConvertTimeout\<close>
  "conversion timed out (more than 1 hour)", \<open>ConvertException\<close> "conversion exception";
  \<open>JobException\<close> is the line that the pooled loop of \<^verbatim>\<open>batch_convert\<close> prints for a job
  that raised. The texts themselves are given by \<open>message_text\<close> below.
\<close>

datatype message =
    VideoMissing path
  | OutputExists path
  | UnsupportedFormat string
  | ConvertOK
  | EmptyOrMissing
  | FfmpegError pytext
  | ConvertTimeout
  | ConvertException
  | JobException py_error

text \<open>
  The text "unknown error" that stands in for an empty error stream.
\<close>

definition unknown_error_text :: pytext where
  "unknown_error_text = [26410, 30693, 38169, 35823]"

text \<open>
  The string that the code returns for a message, as code points, where the model
  determines it: the two messages that embed the text of an exception have none here.
  The strings are, in the order of the constructors:
  \<^verbatim>\<open>f"...: {video_path}"\<close>, \<^verbatim>\<open>f"...: {audio_path}"\<close>, \<^verbatim>\<open>f"...: {audio_format}"\<close> with
  Chinese prefixes of 7, 7 and 8 characters before the colon, the 4 characters for
  "conversion succeeded", the 11 characters for "file empty or missing after conversion",
  \<^verbatim>\<open>f"ffmpeg...: {error_msg}"\<close>, and for the timeout the 12 characters
  U+8F6C U+6362 U+8D85 U+65F6, a space, \<^verbatim>\<open>(\<close>, U+8D85 U+8FC7, \<^verbatim>\<open>1\<close>, U+5C0F U+65F6, \<^verbatim>\<open>)\<close>.
\<close>

fun message_text :: "message \<Rightarrow> pytext option" where
  "message_text (VideoMissing p) =
     Some ([35270, 39057, 25991, 20214, 19981, 23384, 22312, 58, 32] @ text_of (path_str p))"
| "message_text (OutputExists p) =
     Some ([36755, 20986, 25991, 20214, 24050, 23384, 22312, 58, 32] @ text_of (path_str p))"
| "message_text (UnsupportedFormat f) =
     Some ([19981, 25903, 25345, 30340, 38899, 39057, 26684, 24335, 58, 32] @ text_of f)"
| "message_text ConvertOK = Some [36716, 25442, 25104, 21151]"
| "message_text EmptyOrMissing =
     Some [36716, 25442, 21518, 25991, 20214, 20026, 31354, 25110, 19981, 23384, 22312]"
| "message_text (FfmpegError error_msg) =
     Some ([102, 102, 109, 112, 101, 103, 38169, 35823, 58, 32] @ error_msg)"
| "message_text ConvertTimeout =
     Some [36716, 25442, 36229, 26102, 32, 40, 36229, 36807, 49, 23567, 26102, 41]"
| "message_text ConvertException = None"
| "message_text (JobException e) = None"

text \<open>The English word "timeout".\<close>

definition timeout_word :: pytext where
  "timeout_word = [116, 105, 109, 101, 111, 117, 116]"

record task =
  video_path :: path
  audio_path :: path
  audio_format :: string
  quality :: "int option"
  task_bitrate :: "string option"
  sample_rate :: "int option"
  channels :: "int option"
  overwrite :: bool

text \<open>Python truthiness of an optional string and of an optional integer.\<close>

definition truthy_str :: "string option \<Rightarrow> bool" where
  "truthy_str s = (case s of None \<Rightarrow> False | Some x \<Rightarrow> x \<noteq> [])"

definition truthy_int :: "int option \<Rightarrow> bool" where
  "truthy_int i = (case i of None \<Rightarrow> False | Some x \<Rightarrow> x \<noteq> 0)"

definition build_cmd :: "string \<Rightarrow> format_config \<Rightarrow> task \<Rightarrow> string list" where
  "build_cmd ffmpeg_path cfg t =
     [ffmpeg_path, ''-i'', path_str (video_path t)]
     @ [''-vn''] @ [''-sn''] @ [''-dn'']
     @ [''-acodec'', codec cfg]
     @ args cfg
     @ (case quality t of
          None \<Rightarrow> []
        | Some q \<Rightarrow>
            if audio_format t = ''mp3'' then [''-q:a'', str_int q]
            else if audio_format t = ''ogg'' then [''-q:a'', str_int q]
            else [])
     @ (if truthy_str (task_bitrate t) then [''-b:a'', the (task_bitrate t)]
        else if truthy_str (bitrate cfg) then [''-b:a'', the (bitrate cfg)]
        else [])
     @ (if truthy_int (sample_rate t) then [''-ar'', str_int (the (sample_rate t))] else [])
     @ (if truthy_int (channels t) then [''-ac'', str_int (the (channels t))] else [])
     @ [if overwrite t then ''-y'' else ''-n'']
     @ [''-loglevel'', ''error'']
     @ [path_str (audio_path t)]"

text \<open>
  \<^verbatim>\<open>VideoToAudioConverter.convert_video_to_audio\<close>. \<open>Inl\<close> is an exception that leaves the
  method: \<^verbatim>\<open>os.makedirs\<close> is called before the \<^verbatim>\<open>try\<close> block.
\<close>

definition convert_video_to_audio ::
    "tool \<Rightarrow> string \<Rightarrow> fs \<Rightarrow> task \<Rightarrow> py_error + ((bool \<times> message) \<times> fs)" where
  "convert_video_to_audio run ffmpeg_path fs t =
     (if \<not> os_path_exists fs (video_path t) then Inr ((False, VideoMissing (video_path t)), fs)
      else
        (case os_makedirs fs (os_path_dirname (audio_path t)) of
           Inl e \<Rightarrow> Inl e
         | Inr fs1 \<Rightarrow>
             if \<not> overwrite t \<and> os_path_exists fs1 (audio_path t)
             then Inr ((False, OutputExists (audio_path t)), fs1)
             else
               (case AUDIO_FORMATS (audio_format t) of
                  None \<Rightarrow> Inr ((False, UnsupportedFormat (audio_format t)), fs1)
                | Some cfg \<Rightarrow>
                    (case run (build_cmd ffmpeg_path cfg t) fs1 of
                       (CompletedProcess rc err, fs2) \<Rightarrow>
                         if rc = 0 then
                           (if os_path_exists fs2 (audio_path t)
                               \<and> os_path_getsize fs2 (audio_path t) > 0
                            then Inr ((True, ConvertOK), fs2)
                            else Inr ((False, EmptyOrMissing), fs2))
                         else
                           Inr ((False,
                                 FfmpegError (if strip err = [] then unknown_error_text
                                              else strip err)),
                                fs2)
                     | (TimeoutExpired, fs2) \<Rightarrow> Inr ((False, ConvertTimeout), fs2)
                     | (RunException, fs2) \<Rightarrow> Inr ((False, ConvertException), fs2)))))"

section \<open>audio_compresser.py: two-stage compression\<close>

text \<open>
  The message of \<^verbatim>\<open>two_stage_compress\<close>: \<open>InputMissing\<close> "file does not exist",
  \<open>OpusFailed\<close> "Opus failed:" with the first 100 characters of the error stream,
  \<open>OpusNotGenerated\<close> "Opus file not generated", \<open>Mp3Failed\<close> "MP3 failed:" likewise,
  \<open>CompressOK final original\<close> "success:" with the ratio of the two sizes,
  \<open>FinalNotGenerated\<close> "final file not generated", \<open>CompressTimeout\<close> "timeout",
  \<open>CompressError\<close> "error:" with the text of the exception.
\<close>

datatype cmessage =
    InputMissing
  | OpusFailed pytext
  | OpusNotGenerated
  | Mp3Failed pytext
  | CompressOK nat nat
  | FinalNotGenerated
  | CompressTimeout
  | CompressError py_error

text \<open>
  The string that \<^verbatim>\<open>two_stage_compress\<close> returns for a message, where the model determines
  it: the success message formats a floating-point ratio and the error message embeds the
  text of an exception, so they have none here. The timeout message is the two characters
  U+8D85 U+65F6.
\<close>

fun cmessage_text :: "cmessage \<Rightarrow> pytext option" where
  "cmessage_text InputMissing = Some [25991, 20214, 19981, 23384, 22312]"
| "cmessage_text (OpusFailed err) = Some ([79, 112, 117, 115, 22833, 36133, 58, 32] @ err)"
| "cmessage_text OpusNotGenerated =
     Some [79, 112, 117, 115, 25991, 20214, 26410, 29983, 25104]"
| "cmessage_text (Mp3Failed err) = Some ([77, 80, 51, 22833, 36133, 58, 32] @ err)"
| "cmessage_text (CompressOK final_size original_size) = None"
| "cmessage_text FinalNotGenerated = Some [26368, 32456, 25991, 20214, 26410, 29983, 25104]"
| "cmessage_text CompressTimeout = Some [36229, 26102]"
| "cmessage_text (CompressError e) = None"

definition opus_cmd :: "path \<Rightarrow> string \<Rightarrow> path \<Rightarrow> string list" where
  "opus_cmd input_path opus_bitrate temp_opus_path =
     [''ffmpeg'', ''-i'', path_str input_path,
      ''-af'', ''lowpass=3400,highpass=300'',
      ''-af'', ''compand=attacks=0.1:decays=0.5'',
      ''-af'', ''silenceremove=stop_periods=-1:stop_duration=0.5:stop_threshold=-30dB'',
      ''-c:a'', ''libopus'',
      ''-b:a'', opus_bitrate,
      ''-vbr'', ''constrained'',
      ''-compression_level'', ''10'',
      ''-application'', ''voip'',
      ''-frame_duration'', ''60'',
      ''-ar'', ''8000'',
      ''-ac'', ''1'',
      ''-loglevel'', ''error'',
      ''-y'', path_str temp_opus_path]"

definition mp3_cmd :: "path \<Rightarrow> string \<Rightarrow> path \<Rightarrow> string list" where
  "mp3_cmd temp_opus_path mp3_bitrate output_path =
     [''ffmpeg'', ''-i'', path_str temp_opus_path,
      ''-c:a'', ''libmp3lame'',
      ''-b:a'', mp3_bitrate,
      ''-ar'', ''8000'',
      ''-ac'', ''1'',
      ''-q:a'', ''5'',
      ''-write_id3v1'', ''1'',
      ''-id3v2_version'', ''3'',
      ''-map_metadata'', ''0'',
      ''-loglevel'', ''error'',
      ''-y'', path_str output_path]"

text \<open>
  What the body of the inner \<^verbatim>\<open>try\<close> does before the \<^verbatim>\<open>finally\<close> clause runs: it returns a
  pair, or it raises the timeout or another exception. The sizes are divided by 1024 as
  floats in the source; such a quotient is zero exactly when the byte count is, so the
  division by \<^verbatim>\<open>original_size\<close> raises \<^verbatim>\<open>ZeroDivisionError\<close> exactly for an empty input.
\<close>

datatype 'a body_exit = Returned 'a | RaisedTimeout | Raised py_error

definition two_stage_body ::
    "tool \<Rightarrow> fs \<Rightarrow> path \<Rightarrow> path \<Rightarrow> string \<Rightarrow> string \<Rightarrow> path \<Rightarrow> nat
       \<Rightarrow> (bool \<times> cmessage) body_exit \<times> fs" where
  "two_stage_body run fs input_path output_path opus_bitrate mp3_bitrate temp_opus_path
       original_size =
     (case run (opus_cmd input_path opus_bitrate temp_opus_path) fs of
        (TimeoutExpired, fs1) \<Rightarrow> (RaisedTimeout, fs1)
      | (RunException, fs1) \<Rightarrow> (Raised OtherException, fs1)
      | (CompletedProcess rc1 err1, fs1) \<Rightarrow>
          if rc1 \<noteq> 0 then (Returned (False, OpusFailed (take 100 err1)), fs1)
          else if \<not> os_path_exists fs1 temp_opus_path \<or> os_path_getsize fs1 temp_opus_path = 0
          then (Returned (False, OpusNotGenerated), fs1)
          else
            (case run (mp3_cmd temp_opus_path mp3_bitrate output_path) fs1 of
               (TimeoutExpired, fs2) \<Rightarrow> (RaisedTimeout, fs2)
             | (RunException, fs2) \<Rightarrow> (Raised OtherException, fs2)
             | (CompletedProcess rc2 err2, fs2) \<Rightarrow>
                 if rc2 \<noteq> 0 then (Returned (False, Mp3Failed (take 100 err2)), fs2)
                 else if os_path_exists fs2 output_path then
                   (if original_size = 0 then (Raised ZeroDivisionError, fs2)
                    else (Returned (True,
                            CompressOK (os_path_getsize fs2 output_path) original_size), fs2))
                 else (Returned (False, FinalNotGenerated), fs2)))"

text \<open>
  \<^verbatim>\<open>two_stage_compress\<close>. \<open>temp_opus_path\<close> is the name that \<^verbatim>\<open>tempfile.NamedTemporaryFile\<close>
  picks; the file is created empty and kept (\<^verbatim>\<open>delete=False\<close>). The \<^verbatim>\<open>finally\<close> clause
  unlinks it when it exists; an exception of the unlink replaces the pending result and is
  caught by the outer handler.
\<close>

definition two_stage_compress ::
    "tool \<Rightarrow> fs \<Rightarrow> path \<Rightarrow> path \<Rightarrow> string \<Rightarrow> string \<Rightarrow> path
       \<Rightarrow> (bool \<times> cmessage) \<times> fs" where
  "two_stage_compress run fs input_path output_path opus_bitrate mp3_bitrate temp_opus_path =
     (if \<not> os_path_exists fs input_path then ((False, InputMissing), fs)
      else
        (case two_stage_body run (fs(temp_opus_path \<mapsto> File 0)) input_path output_path
                opus_bitrate mp3_bitrate temp_opus_path (os_path_getsize fs input_path) of
           (ex, fs2) \<Rightarrow>
             (case (if os_path_exists fs2 temp_opus_path then os_unlink fs2 temp_opus_path
                    else Inr fs2) of
                Inl e \<Rightarrow> ((False, CompressError e), fs2)
              | Inr fs3 \<Rightarrow>
                  (case ex of
                     Returned r \<Rightarrow> (r, fs3)
                   | RaisedTimeout \<Rightarrow> ((False, CompressTimeout), fs3)
                   | Raised e \<Rightarrow> ((False, CompressError e), fs3)))))"

section \<open>Names, suffixes and the directory scan\<close>

text \<open>
  \<^verbatim>\<open>str.lower\<close> on ASCII letters. File names are taken to be ASCII: Python also lower-cases
  letters outside ASCII, which a byte string does not hold.
\<close>

definition lower_char :: "char \<Rightarrow> char" where
  "lower_char c =
     (if (65::nat) \<le> of_char c \<and> (of_char c :: nat) \<le> 90
      then char_of ((of_char c :: nat) + 32) else c)"

definition str_lower :: "string \<Rightarrow> string" where
  "str_lower s = map lower_char s"

text \<open>\<^verbatim>\<open>name.rfind('.')\<close>: the index of the last dot, if there is one.\<close>

fun rfind_dot :: "string \<Rightarrow> nat option" where
  "rfind_dot [] = None"
| "rfind_dot (c # cs) =
     (case rfind_dot cs of
        Some i \<Rightarrow> Some (Suc i)
      | None \<Rightarrow> if c = CHR ''.'' then Some 0 else None)"

text \<open>
  \<^verbatim>\<open>PurePath.suffix\<close> and \<^verbatim>\<open>PurePath.stem\<close> of a file name (Python 3.11): the last dot
  counts when it is neither the first nor the last character of the name.
\<close>

definition suffix :: "string \<Rightarrow> string" where
  "suffix name =
     (case rfind_dot name of
        None \<Rightarrow> []
      | Some i \<Rightarrow> if 0 < i \<and> Suc i < length name then drop i name else [])"

definition stem :: "string \<Rightarrow> string" where
  "stem name =
     (case rfind_dot name of
        None \<Rightarrow> name
      | Some i \<Rightarrow> if 0 < i \<and> Suc i < length name then take i name else name)"

definition path_name :: "path \<Rightarrow> string" where
  "path_name p = (if p = [] \<or> p = [''/''] then [] else last p)"

text \<open>
  \<^verbatim>\<open>PurePath.with_suffix\<close> for a suffix of the format table (a dot followed by letters):
  it raises \<^verbatim>\<open>ValueError\<close> on a path with an empty name.
\<close>

definition with_suffix :: "path \<Rightarrow> string \<Rightarrow> py_error + path" where
  "with_suffix p sfx =
     (if path_name p = [] then Inl ValueError
      else if suffix (path_name p) = [] then Inr (butlast p @ [path_name p @ sfx])
      else Inr (butlast p @
                [take (length (path_name p) - length (suffix (path_name p))) (path_name p) @ sfx]))"

text \<open>\<^verbatim>\<open>PurePath.relative_to\<close>: raises \<^verbatim>\<open>ValueError\<close> unless the other path is a prefix.\<close>

definition relative_to :: "path \<Rightarrow> path \<Rightarrow> py_error + path" where
  "relative_to p base =
     (if take (length base) p = base then Inr (drop (length base) p) else Inl ValueError)"

text \<open>
  \<^verbatim>\<open>os.path.splitext\<close> of a bare file name: the extension starts at the last dot unless only
  dots precede it.
\<close>

definition splitext :: "string \<Rightarrow> string \<times> string" where
  "splitext name =
     (case rfind_dot name of
        None \<Rightarrow> (name, [])
      | Some i \<Rightarrow>
          if list_ex (\<lambda>c. c \<noteq> CHR ''.'') (take i name) then (take i name, drop i name)
          else (name, []))"

definition SUPPORTED_VIDEO_FORMATS :: "string list" where
  "SUPPORTED_VIDEO_FORMATS =
     [''.mp4'', ''.avi'', ''.mov'', ''.mkv'', ''.flv'', ''.wmv'', ''.webm'',
      ''.m4v'', ''.mpg'', ''.mpeg'', ''.3gp'', ''.mts'', ''.m2ts'', ''.ts'',
      ''.rm'', ''.rmvb'', ''.asf'', ''.vob'', ''.ogv'', ''.divx'']"

text \<open>
  The contents of the scanned directory as the operating system lists them: each name with
  a regular file or with the listing of a subdirectory, in listing order.
\<close>

datatype entry = Reg | Sub "(string \<times> entry) list"

type_synonym listing = "(string \<times> entry) list"

fun is_reg :: "entry \<Rightarrow> bool" where
  "is_reg Reg = True"
| "is_reg (Sub l) = False"

text \<open>
  The paths \<^verbatim>\<open>Path(root) / file\<close> over \<^verbatim>\<open>os.walk\<close>: the files of a directory first, then
  its subdirectories in listing order.
\<close>

fun walk :: "path \<Rightarrow> entry \<Rightarrow> path list" where
  "walk root Reg = []"
| "walk root (Sub l) =
     map (\<lambda>ne. root @ [fst ne]) (filter (\<lambda>ne. is_reg (snd ne)) l)
     @ concat (map (\<lambda>ne. walk (root @ [fst ne]) (snd ne)) l)"

text \<open>\<^verbatim>\<open>Path.iterdir\<close> with the \<^verbatim>\<open>is_file\<close> test of each child.\<close>

definition iterdir :: "path \<Rightarrow> listing \<Rightarrow> (path \<times> bool) list" where
  "iterdir root l = map (\<lambda>ne. (root @ [fst ne], is_reg (snd ne))) l"

text \<open>The scan of \<^verbatim>\<open>batch_convert\<close> (the list \<^verbatim>\<open>video_files\<close>).\<close>

definition find_video_files :: "bool \<Rightarrow> path \<Rightarrow> listing \<Rightarrow> path list" where
  "find_video_files recursive input_path l =
     (if recursive then
        filter (\<lambda>file_path. str_lower (suffix (path_name file_path)) \<in> set SUPPORTED_VIDEO_FORMATS)
          (walk input_path (Sub l))
      else
        map fst (filter (\<lambda>(file, is_file).
                     is_file \<and> str_lower (suffix (path_name file)) \<in> set SUPPORTED_VIDEO_FORMATS)
                   (iterdir input_path l)))"

text \<open>The selection of \<^verbatim>\<open>compress_mp4_files\<close> in vid\_compresser.py.\<close>

definition video_extensions :: "string list" where
  "video_extensions = [''.mp4'', ''.MP4'', ''.Mp4'']"

definition compress_mp4_selected :: "listing \<Rightarrow> string list" where
  "compress_mp4_selected l =
     map fst (filter (\<lambda>(file, e). is_reg e \<and> snd (splitext file) \<in> set video_extensions) l)"


section \<open>video2audio.py: the batch\<close>

record options =
  opt_audio_format :: string
  opt_quality :: "int option"
  opt_bitrate :: "string option"
  opt_sample_rate :: "int option"
  opt_channels :: "int option"
  recursive :: bool
  keep_structure :: bool
  opt_overwrite :: bool
  max_workers :: int

record stats =
  total :: nat
  success :: nat
  failed :: nat
  skipped :: nat
  no_audio :: nat
  output_dir :: path

text \<open>
  The dictionary that \<^verbatim>\<open>batch_convert\<close> returns: the error entry, the all-zero counters with
  the "no supported video files" message, or the statistics (the time stamps are left out).
\<close>

datatype batch_result = ErrorDict | EmptyDict | StatsDict stats

text \<open>The output path of one video file (\<^verbatim>\<open>audio_file\<close> in the task loop).\<close>

definition audio_file_for :: "path \<Rightarrow> path \<Rightarrow> bool \<Rightarrow> string \<Rightarrow> path \<Rightarrow> py_error + path" where
  "audio_file_for input_path output_path keep fmt video_file =
     (if keep then
        (case relative_to video_file input_path of
           Inl e \<Rightarrow> Inl e
         | Inr rel_path \<Rightarrow>
             (case AUDIO_FORMATS fmt of
                None \<Rightarrow> Inl KeyError
              | Some cfg \<Rightarrow>
                  (case with_suffix rel_path (ext cfg) of
                     Inl e \<Rightarrow> Inl e
                   | Inr r \<Rightarrow> Inr (output_path @ r))))
      else
        (case AUDIO_FORMATS fmt of
           None \<Rightarrow> Inl KeyError
         | Some cfg \<Rightarrow> Inr (output_path @ [stem (path_name video_file) @ ext cfg])))"

definition make_task :: "options \<Rightarrow> path \<Rightarrow> path \<Rightarrow> task" where
  "make_task opts video_file audio_file =
     \<lparr>video_path = video_file, audio_path = audio_file,
      audio_format = opt_audio_format opts, quality = opt_quality opts,
      task_bitrate = opt_bitrate opts, sample_rate = opt_sample_rate opts,
      channels = opt_channels opts, overwrite = opt_overwrite opts\<rparr>"

text \<open>
  The task loop: the tasks, the number of skipped files and the file system after the
  directories of the kept structure were created.
\<close>

fun make_tasks ::
    "options \<Rightarrow> path \<Rightarrow> path \<Rightarrow> fs \<Rightarrow> path list \<Rightarrow> py_error + (task list \<times> nat \<times> fs)" where
  "make_tasks opts input_path output_path fs [] = Inr ([], 0, fs)"
| "make_tasks opts input_path output_path fs (video_file # rest) =
     (case audio_file_for input_path output_path (keep_structure opts)
             (opt_audio_format opts) video_file of
        Inl e \<Rightarrow> Inl e
      | Inr audio_file \<Rightarrow>
          (case (if keep_structure opts then path_mkdir fs (parent audio_file) else Inr fs) of
             Inl e \<Rightarrow> Inl e
           | Inr fs1 \<Rightarrow>
               (case make_tasks opts input_path output_path fs1 rest of
                  Inl e \<Rightarrow> Inl e
                | Inr (tasks, sk, fs2) \<Rightarrow>
                    if \<not> opt_overwrite opts \<and> os_path_exists fs1 audio_file
                    then Inr (tasks, Suc sk, fs2)
                    else Inr (make_task opts video_file audio_file # tasks, sk, fs2))))"

text \<open>
  The single-threaded loop: successes, failures, the failure lines printed, and the file
  system. An exception of a job leaves the loop.
\<close>

fun run_sequential ::
    "tool \<Rightarrow> string \<Rightarrow> fs \<Rightarrow> task list
       \<Rightarrow> py_error + (nat \<times> nat \<times> (string \<times> message) list \<times> fs)" where
  "run_sequential run ffmpeg_path fs [] = Inr (0, 0, [], fs)"
| "run_sequential run ffmpeg_path fs (t # ts) =
     (case convert_video_to_audio run ffmpeg_path fs t of
        Inl e \<Rightarrow> Inl e
      | Inr ((ok, msg), fs1) \<Rightarrow>
          (case run_sequential run ffmpeg_path fs1 ts of
             Inl e \<Rightarrow> Inl e
           | Inr (s, f, printed, fs2) \<Rightarrow>
               if ok then Inr (Suc s, f, printed, fs2)
               else Inr (s, Suc f, (os_path_basename (video_path t), msg) # printed, fs2)))"

text \<open>
  The pooled loop over the futures as they complete. \<open>pick\<close> chooses, among the pending
  tasks, the one that completes next (its value is taken modulo their number), so every
  completion order is the behaviour of some \<open>pick\<close>. The jobs are taken to run one after the
  other in that order; an exception of a job is caught and counted as a failure.
\<close>

lemma pooled_rest_shorter:
  assumes "pending \<noteq> []"
  shows "k mod length pending + (length pending - Suc (k mod length pending)) < length pending"
proof -
  have "k mod length pending < length pending"
    using assms by simp
  then show ?thesis by arith
qed

function run_pooled ::
    "tool \<Rightarrow> string \<Rightarrow> (task list \<Rightarrow> nat) \<Rightarrow> fs \<Rightarrow> task list
       \<Rightarrow> nat \<times> nat \<times> (string \<times> message) list \<times> fs" where
  "run_pooled run ffmpeg_path pick fs pending =
     (if pending = [] then (0, 0, [], fs)
      else
        let i = pick pending mod length pending;
            t = pending ! i;
            rest = take i pending @ drop (Suc i) pending
        in
        (case convert_video_to_audio run ffmpeg_path fs t of
           Inl e \<Rightarrow>
             (case run_pooled run ffmpeg_path pick fs rest of
                (s, f, printed, fs2) \<Rightarrow>
                  (s, Suc f, (os_path_basename (video_path t), JobException e) # printed, fs2))
         | Inr ((ok, msg), fs1) \<Rightarrow>
             (case run_pooled run ffmpeg_path pick fs1 rest of
                (s, f, printed, fs2) \<Rightarrow>
                  if ok then (Suc s, f, printed, fs2)
                  else (s, Suc f, (os_path_basename (video_path t), msg) # printed, fs2))))"
  by pat_completeness auto
termination
  by (relation "measure (\<lambda>(run, ffmpeg_path, pick, fs, pending). length pending)")
    (auto simp: pooled_rest_shorter)

declare run_pooled.simps [simp del]

text \<open>
  \<^verbatim>\<open>batch_convert\<close>. \<open>pick\<close> is the completion order of the executor, \<open>l\<close> the listing of the input directory that the scan reads.
\<close>

definition batch_convert ::
    "tool \<Rightarrow> (task list \<Rightarrow> nat) \<Rightarrow> string \<Rightarrow> fs \<Rightarrow> listing \<Rightarrow> path \<Rightarrow> path option
       \<Rightarrow> options \<Rightarrow> py_error + (batch_result \<times> (string \<times> message) list \<times> fs)" where
  "batch_convert run pick ffmpeg_path fs l input_path output_dir_arg opts =
     (if \<not> os_path_exists fs input_path \<or> \<not> os_path_isdir fs input_path
      then Inr (ErrorDict, [], fs)
      else
        let output_path = (case output_dir_arg of
                             None \<Rightarrow> input_path @ [''audio_output'']
                           | Some d \<Rightarrow> d)
        in
        (case path_mkdir fs output_path of
           Inl e \<Rightarrow> Inl e
         | Inr fs1 \<Rightarrow>
             let video_files = find_video_files (recursive opts) input_path l in
             if video_files = [] then Inr (EmptyDict, [], fs1)
             else
               (case make_tasks opts input_path output_path fs1 video_files of
                  Inl e \<Rightarrow> Inl e
                | Inr (tasks, sk, fs2) \<Rightarrow>
                    if max_workers opts > 1 \<and> length tasks > 1 then
                      (case run_pooled run ffmpeg_path pick fs2 tasks of
                         (s, f, printed, fs3) \<Rightarrow>
                           Inr (StatsDict \<lparr>total = length video_files, success = s,
                                  failed = f, skipped = sk, no_audio = 0,
                                  output_dir = output_path\<rparr>, printed, fs3))
                    else
                      (case run_sequential run ffmpeg_path fs2 tasks of
                         Inl e \<Rightarrow> Inl e
                       | Inr (s, f, printed, fs3) \<Rightarrow>
                           Inr (StatsDict \<lparr>total = length video_files, success = s,
                                  failed = f, skipped = sk, no_audio = 0,
                                  output_dir = output_path\<rparr>, printed, fs3)))))"

section \<open>audio2text.py and soundext.py: transcription\<close>

text \<open>
  The recogniser chosen for the run: from the audio file and the file system to the text
  (empty when recognition fails).
\<close>

type_synonym recogniser = "path \<Rightarrow> fs \<Rightarrow> pytext"

text \<open>\<^verbatim>\<open>AudioTranscriber.transcribe\<close>.\<close>

definition transcribe :: "recogniser \<Rightarrow> fs \<Rightarrow> path \<Rightarrow> pytext" where
  "transcribe asr fs audio = (if \<not> os_path_exists fs audio then [] else asr audio fs)"

text \<open>\<^verbatim>\<open>extract_audio\<close> of audio2text.py: a second command is tried when the first fails.\<close>

definition extract_cmd1 :: "path \<Rightarrow> path \<Rightarrow> string list" where
  "extract_cmd1 mp4_path audio =
     [''ffmpeg'', ''-i'', path_str mp4_path, ''-q:a'', ''0'', ''-map'', ''a'',
      ''-y'', ''-loglevel'', ''error'', path_str audio]"

definition extract_cmd2 :: "path \<Rightarrow> path \<Rightarrow> string list" where
  "extract_cmd2 mp4_path audio =
     [''ffmpeg'', ''-i'', path_str mp4_path, ''-vn'', ''-acodec'', ''libmp3lame'',
      ''-ab'', ''192k'', ''-y'', ''-loglevel'', ''error'', path_str audio]"

definition extract_audio :: "tool \<Rightarrow> fs \<Rightarrow> path \<Rightarrow> path \<Rightarrow> bool \<times> fs" where
  "extract_audio run fs mp4_path audio =
     (case run (extract_cmd1 mp4_path audio) fs of
        (CompletedProcess rc err, fs1) \<Rightarrow>
          if rc = 0 then (True, fs1)
          else
            (case run (extract_cmd2 mp4_path audio) fs1 of
               (CompletedProcess rc2 err2, fs2) \<Rightarrow> (rc2 = 0, fs2)
             | (TimeoutExpired, fs2) \<Rightarrow> (False, fs2)
             | (RunException, fs2) \<Rightarrow> (False, fs2))
      | (TimeoutExpired, fs1) \<Rightarrow> (False, fs1)
      | (RunException, fs1) \<Rightarrow> (False, fs1))"

text \<open>The number of bytes of a text in UTF-8, the encoding the scripts write with.\<close>

definition utf8_bytes :: "nat \<Rightarrow> nat" where
  "utf8_bytes c = (if c < 0x80 then 1 else if c < 0x800 then 2 else if c < 0x10000 then 3 else 4)"

definition utf8_length :: "pytext \<Rightarrow> nat" where
  "utf8_length s = sum_list (map utf8_bytes s)"

text \<open>
  \<^verbatim>\<open>open(path, 'w', encoding='utf-8')\<close> followed by the writes: the file is created or
  truncated and gets the given number of bytes, unless the path is a directory or its
  parent is not one.
\<close>

definition write_file :: "fs \<Rightarrow> path \<Rightarrow> nat \<Rightarrow> py_error + fs" where
  "write_file fs p n =
     (if os_path_isdir fs p then Inl IsADirectoryError
      else if p = [] then Inl FileNotFoundError
      else (case fs (butlast p) of
              None \<Rightarrow> Inl FileNotFoundError
            | Some (File k) \<Rightarrow> Inl NotADirectoryError
            | Some (Dir k) \<Rightarrow> Inr (fs(p \<mapsto> File n))))"

text \<open>
  \<^verbatim>\<open>save_as_markdown\<close> with its metadata block: a heading, the source file, a time stamp of
  19 characters and the model, then the text. The fixed parts take 117 bytes (a line end
  being one byte); the names of the source file and of the model are ASCII.
\<close>

definition save_as_markdown :: "fs \<Rightarrow> pytext \<Rightarrow> path \<Rightarrow> string \<Rightarrow> string \<Rightarrow> bool \<times> fs" where
  "save_as_markdown fs txt output_path source_file model =
     (case write_file fs output_path (117 + length source_file + length model + utf8_length txt) of
        Inl e \<Rightarrow> (False, fs)
      | Inr fs' \<Rightarrow> (True, fs'))"

text \<open>How one pass of the file loop of a transcription script ends.\<close>

datatype file_outcome =
    AlreadyDone
  | ExtractFailed
  | AudioInvalid
  | TextTooShort
  | Saved
  | SaveFailed

text \<open>
  The body of the file loop of \<^verbatim>\<open>main\<close> in audio2text.py. \<open>Inl\<close> is an exception of
  \<^verbatim>\<open>os.remove\<close>, which the loop does not catch.
\<close>

definition a2t_process_file ::
    "tool \<Rightarrow> recogniser \<Rightarrow> bool \<Rightarrow> string \<Rightarrow> path \<Rightarrow> path \<Rightarrow> fs \<Rightarrow> path
       \<Rightarrow> py_error + (file_outcome \<times> fs)" where
  "a2t_process_file run asr keep_audio model_type audio_dir out_dir fs mp4_file =
     (let base_name = stem (path_name mp4_file);
          audio_file = audio_dir @ [base_name @ ''.mp3''];
          md_file = out_dir @ [base_name @ ''.md'']
      in
      if os_path_exists fs md_file then Inr (AlreadyDone, fs)
      else
        (case extract_audio run fs mp4_file audio_file of
           (ok, fs1) \<Rightarrow>
             if \<not> ok then Inr (ExtractFailed, fs1)
             else if \<not> os_path_exists fs1 audio_file \<or> os_path_getsize fs1 audio_file = 0
             then Inr (AudioInvalid, fs1)
             else
               (let txt = transcribe asr fs1 audio_file in
                if txt = [] \<or> length (strip txt) < 5 then Inr (TextTooShort, fs1)
                else
                  (case save_as_markdown fs1 txt md_file (path_name mp4_file) model_type of
                     (saved, fs2) \<Rightarrow>
                       (case (if \<not> keep_audio \<and> os_path_exists fs2 audio_file
                              then os_unlink fs2 audio_file else Inr fs2) of
                          Inl e \<Rightarrow> Inl e
                        | Inr fs3 \<Rightarrow> Inr (if saved then Saved else SaveFailed, fs3))))))"

text \<open>The file loop of audio2text.py: the number of files processed and the file system.\<close>

fun a2t_loop ::
    "tool \<Rightarrow> recogniser \<Rightarrow> bool \<Rightarrow> string \<Rightarrow> path \<Rightarrow> path \<Rightarrow> fs \<Rightarrow> path list
       \<Rightarrow> py_error + (nat \<times> fs)" where
  "a2t_loop run asr keep_audio model_type audio_dir out_dir fs [] = Inr (0, fs)"
| "a2t_loop run asr keep_audio model_type audio_dir out_dir fs (mp4_file # rest) =
     (case a2t_process_file run asr keep_audio model_type audio_dir out_dir fs mp4_file of
        Inl e \<Rightarrow> Inl e
      | Inr (outcome, fs1) \<Rightarrow>
          (case a2t_loop run asr keep_audio model_type audio_dir out_dir fs1 rest of
             Inl e \<Rightarrow> Inl e
           | Inr (processed, fs2) \<Rightarrow>
               Inr (if outcome = Saved then Suc processed else processed, fs2)))"

text \<open>
  \<^verbatim>\<open>extract_audio_from_mp4\<close> of soundext.py: moviepy when it can be imported (its result is
  true, or false after an exception), the ffmpeg command otherwise.
\<close>

type_synonym extractor = "path \<Rightarrow> path \<Rightarrow> fs \<Rightarrow> bool \<times> fs"

definition soundext_cmd :: "path \<Rightarrow> path \<Rightarrow> string list" where
  "soundext_cmd mp4_path audio =
     [''ffmpeg'', ''-i'', path_str mp4_path, ''-q:a'', ''0'', ''-map'', ''a'', path_str audio,
      ''-y'', ''-loglevel'', ''error'']"

definition extract_audio_from_mp4 ::
    "extractor option \<Rightarrow> tool \<Rightarrow> fs \<Rightarrow> path \<Rightarrow> path \<Rightarrow> bool \<times> fs" where
  "extract_audio_from_mp4 moviepy run fs mp4_path audio =
     (case moviepy of
        Some write_audiofile \<Rightarrow> write_audiofile mp4_path audio fs
      | None \<Rightarrow>
          (case run (soundext_cmd mp4_path audio) fs of
             (CompletedProcess rc err, fs1) \<Rightarrow> (rc = 0, fs1)
           | (TimeoutExpired, fs1) \<Rightarrow> (False, fs1)
           | (RunException, fs1) \<Rightarrow> (False, fs1)))"

text \<open>
  \<^verbatim>\<open>save_text_as_markdown\<close> of soundext.py: two headings, which take 39 bytes, and the text.
\<close>

definition save_text_as_markdown :: "fs \<Rightarrow> pytext \<Rightarrow> path \<Rightarrow> bool \<times> fs" where
  "save_text_as_markdown fs txt output_path =
     (case write_file fs output_path (39 + utf8_length txt) of
        Inl e \<Rightarrow> (False, fs)
      | Inr fs' \<Rightarrow> (True, fs'))"

text \<open>
  The body of the file loop of \<^verbatim>\<open>process_mp4_files\<close> in soundext.py; \<open>asr\<close> is the recogniser
  that \<^verbatim>\<open>use_whisper\<close> selects. \<open>TextTooShort\<close> here is the branch taken for an empty text.
\<close>

definition soundext_process_file ::
    "extractor option \<Rightarrow> tool \<Rightarrow> recogniser \<Rightarrow> bool \<Rightarrow> path \<Rightarrow> path \<Rightarrow> fs \<Rightarrow> path
       \<Rightarrow> py_error + (file_outcome \<times> fs)" where
  "soundext_process_file moviepy run asr keep_audio audio_dir output_path fs mp4_file =
     (let base_name = stem (path_name mp4_file);
          audio_file = audio_dir @ [base_name @ ''.mp3''];
          md_file = output_path @ [base_name @ ''.md'']
      in
      if os_path_exists fs md_file then Inr (AlreadyDone, fs)
      else
        (case extract_audio_from_mp4 moviepy run fs mp4_file audio_file of
           (ok, fs1) \<Rightarrow>
             if \<not> ok then Inr (ExtractFailed, fs1)
             else
               (let txt = asr audio_file fs1 in
                if txt = [] then Inr (TextTooShort, fs1)
                else
                  (case save_text_as_markdown fs1 txt md_file of
                     (saved, fs2) \<Rightarrow>
                       (case (if \<not> keep_audio \<and> os_path_exists fs2 audio_file
                              then os_unlink fs2 audio_file else Inr fs2) of
                          Inl e \<Rightarrow> Inl e
                        | Inr fs3 \<Rightarrow> Inr (if saved then Saved else SaveFailed, fs3))))))"

section \<open>audio_compresser.py: the folder loop\<close>

definition audio_extensions :: "string list" where
  "audio_extensions =
     [''.mp3'', ''.wav'', ''.flac'', ''.m4a'', ''.aac'',
      ''.ogg'', ''.opus'', ''.wma'', ''.amr'', ''.aiff'', ''.au'']"

text \<open>
  The loop of \<^verbatim>\<open>compress_with_opus_then_mp3\<close> over the sorted names of the input folder:
  the count of successes, the failed files with their messages, and the file system.
  \<open>mktemp\<close> is the name that \<^verbatim>\<open>tempfile\<close> picks in a given file system.
\<close>

fun compress_loop ::
    "tool \<Rightarrow> (fs \<Rightarrow> path) \<Rightarrow> string \<Rightarrow> string \<Rightarrow> path \<Rightarrow> path \<Rightarrow> fs \<Rightarrow> string list
       \<Rightarrow> nat \<times> (string \<times> cmessage) list \<times> fs" where
  "compress_loop run mktemp opus_bitrate mp3_bitrate input_folder output_folder fs [] =
     (0, [], fs)"
| "compress_loop run mktemp opus_bitrate mp3_bitrate input_folder output_folder fs
       (filename # rest) =
     (if str_lower (snd (splitext filename)) \<in> set audio_extensions
         \<and> os_path_isfile fs (input_folder @ [filename])
      then
        (case two_stage_compress run fs (input_folder @ [filename])
                (output_folder @ [fst (splitext filename) @ ''.mp3''])
                opus_bitrate mp3_bitrate (mktemp fs) of
           ((ok, msg), fs1) \<Rightarrow>
             (case compress_loop run mktemp opus_bitrate mp3_bitrate input_folder
                     output_folder fs1 rest of
                (processed_count, failed_files, fs2) \<Rightarrow>
                  if ok then (Suc processed_count, failed_files, fs2)
                  else (processed_count, (filename, msg) # failed_files, fs2)))
      else compress_loop run mktemp opus_bitrate mp3_bitrate input_folder output_folder fs rest)"

section \<open>Notions used in the statements\<close>

text \<open>A file name: a non-empty component without a separator.\<close>

definition is_name :: "string \<Rightarrow> bool" where
  "is_name n = (n \<noteq> [] \<and> CHR ''/'' \<notin> set n)"

text \<open>The relative paths at which a listing has a regular file.\<close>

fun file_at :: "entry \<Rightarrow> string list \<Rightarrow> bool" where
  "file_at e [] = is_reg e"
| "file_at Reg (n # rel) = False"
| "file_at (Sub l) (n # rel) = list_ex (\<lambda>ne. fst ne = n \<and> file_at (snd ne) rel) l"



section \<open>Concrete scenarios\<close>

text \<open>
  A working directory with an input folder of three videos and an empty output folder, and
  the listing of the input folder.
\<close>

definition fs_videos :: fs where
  "fs_videos =
     [[] \<mapsto> Dir 4096, [''in''] \<mapsto> Dir 4096, [''out''] \<mapsto> Dir 4096,
      [''in'', ''a.mp4''] \<mapsto> File 1000, [''in'', ''b.mp4''] \<mapsto> File 2000,
      [''in'', ''c.avi''] \<mapsto> File 3000]"

definition listing_videos :: listing where
  "listing_videos = [(''a.mp4'', Reg), (''b.mp4'', Reg), (''c.avi'', Reg)]"

text \<open>
  The default arguments of \<^verbatim>\<open>batch_convert\<close>: MP3, no overrides, flat output, overwriting,
  two workers.
\<close>

definition default_options :: options where
  "default_options =
     \<lparr>opt_audio_format = ''mp3'', opt_quality = None, opt_bitrate = None,
      opt_sample_rate = None, opt_channels = None, recursive = False,
      keep_structure = False, opt_overwrite = True, max_workers = 2\<rparr>"

text \<open>
  An encoder that exits with code 0: it writes 2048 bytes to a temporary Opus file and
  leaves the final MP3 file empty.
\<close>

definition tool_empty_output :: tool where
  "tool_empty_output cmd fs =
     (if last cmd = ''out/a.mp3''
      then (CompletedProcess 0 [], fs([''out'', ''a.mp3''] \<mapsto> File 0))
      else (CompletedProcess 0 [], fs([last cmd] \<mapsto> File 2048)))"

text \<open>The same run with overwriting disabled, and file systems of earlier runs.\<close>

definition no_overwrite_options :: options where
  "no_overwrite_options = default_options\<lparr>opt_overwrite := False\<rparr>"

definition videos3 :: "path list" where
  "videos3 = [[''in'', ''a.mp4''], [''in'', ''b.mp4''], [''in'', ''c.avi'']]"

definition fs_b_done :: fs where
  "fs_b_done = fs_videos([''out'', ''b.mp3''] \<mapsto> File 700)"

definition fs_all_done :: fs where
  "fs_all_done =
     fs_videos([''out'', ''a.mp3''] \<mapsto> File 600, [''out'', ''b.mp3''] \<mapsto> File 700,
               [''out'', ''c.mp3''] \<mapsto> File 800)"

text \<open>
  An encoder that converts \<^verbatim>\<open>a.mp4\<close> and \<^verbatim>\<open>b.mp4\<close> and runs into the timeout on \<^verbatim>\<open>c.avi\<close>.
\<close>

definition tool_timeout_c :: tool where
  "tool_timeout_c cmd fs =
     (if last cmd = ''out/c.mp3'' then (TimeoutExpired, fs)
      else if last cmd = ''out/a.mp3''
      then (CompletedProcess 0 [], fs([''out'', ''a.mp3''] \<mapsto> File 600))
      else if last cmd = ''out/b.mp3''
      then (CompletedProcess 0 [], fs([''out'', ''b.mp3''] \<mapsto> File 700))
      else (CompletedProcess 1 [], fs))"

text \<open>An encoder that writes 600 bytes to the file named by its last argument.\<close>

definition tool_writes_cwd :: tool where
  "tool_writes_cwd cmd fs = (CompletedProcess 0 [], fs([last cmd] \<mapsto> File 600))"

text \<open>The tasks of the three videos, and the task of \<^verbatim>\<open>a.mp4\<close> under another input root.\<close>

definition task_a :: task where
  "task_a = make_task default_options [''in'', ''a.mp4''] [''out'', ''a.mp3'']"

definition task_b :: task where
  "task_b = make_task default_options [''in'', ''b.mp4''] [''out'', ''b.mp3'']"

definition task_c :: task where
  "task_c = make_task default_options [''in'', ''c.avi''] [''out'', ''c.mp3'']"

definition task_a_other_root :: task where
  "task_a_other_root =
     make_task (no_overwrite_options\<lparr>opt_quality := Some 0\<rparr>) [''/'', ''data'', ''a.mp4'']
       [''out'', ''a.mp3'']"

text \<open>Two videos with one stem, and a video whose extension mixes upper and lower case.\<close>

definition listing_same_stem :: listing where
  "listing_same_stem = [(''a.mp4'', Reg), (''a.avi'', Reg)]"

definition listing_mixed_case :: listing where
  "listing_mixed_case = [(''a.mP4'', Reg)]"

text \<open>
  An encoder that always runs into the timeout, the file system after \<^verbatim>\<open>a.mp4\<close> and \<^verbatim>\<open>b.mp4\<close>
  were converted, and the entry of the format table for MP3.
\<close>

definition tool_always_timeout :: tool where
  "tool_always_timeout cmd fs = (TimeoutExpired, fs)"

definition fs_ab_done :: fs where
  "fs_ab_done = fs_videos([''out'', ''a.mp3''] \<mapsto> File 600, [''out'', ''b.mp3''] \<mapsto> File 700)"

definition mp3_config :: format_config where
  "mp3_config = \<lparr>ext = ''.mp3'', codec = ''libmp3lame'', args = [''-q:a'', ''2''],
                  bitrate = Some ''192k''\<rparr>"

text \<open>
  A transcription run over one video: the file system before and after the extraction, an
  extractor that writes 500 bytes of audio, and recognisers that return "abc" and
  nothing.
\<close>

definition fs_mp4 :: fs where
  "fs_mp4 =
     [[] \<mapsto> Dir 4096, [''in''] \<mapsto> Dir 4096, [''in'', ''a.mp4''] \<mapsto> File 1000,
      [''out''] \<mapsto> Dir 4096, [''out'', ''temp_audio''] \<mapsto> Dir 4096]"

definition tool_extract :: tool where
  "tool_extract cmd fs =
     (CompletedProcess 0 [], fs([''out'', ''temp_audio'', ''a.mp3''] \<mapsto> File 500))"

definition asr_abc :: recogniser where
  "asr_abc audio fs = [97, 98, 99]"

definition asr_silent :: recogniser where
  "asr_silent audio fs = []"


text \<open>An input folder with two audio files.\<close>

definition fs_wavs :: fs where
  "fs_wavs =
     [[] \<mapsto> Dir 4096, [''in''] \<mapsto> Dir 4096, [''out''] \<mapsto> Dir 4096,
      [''in'', ''a.wav''] \<mapsto> File 100000, [''in'', ''b.wav''] \<mapsto> File 200000]"

text \<open>A completion order in which the task submitted last completes first.\<close>

definition pick_last :: "task list \<Rightarrow> nat" where
  "pick_last pending = length pending - 1"

text \<open>
  An encoder that runs into the timeout whenever its input is \<^verbatim>\<open>in/a.wav\<close>, and otherwise
  writes the temporary Opus file and the file \<^verbatim>\<open>out/b.mp3\<close>.
\<close>

definition tool_timeout_a_wav :: tool where
  "tool_timeout_a_wav cmd fs =
     (if take 1 (drop 2 cmd) = [''in/a.wav''] then (TimeoutExpired, fs)
      else if last cmd = ''tmp1.opus''
      then (CompletedProcess 0 [], fs([''tmp1.opus''] \<mapsto> File 2048))
      else if last cmd = ''out/b.mp3''
      then (CompletedProcess 0 [], fs([''out'', ''b.mp3''] \<mapsto> File 4096))
      else (CompletedProcess 1 [], fs))"

text \<open>
  The file systems after \<^verbatim>\<open>a.mp4\<close> alone and after \<^verbatim>\<open>b.mp4\<close> alone were converted, and a
  \<^verbatim>\<open>tempfile\<close> that always picks the same free name.
\<close>

definition fs_a_done :: fs where
  "fs_a_done = fs_videos([''out'', ''a.mp3''] \<mapsto> File 600)"

definition fs_b_first :: fs where
  "fs_b_first = fs_videos([''out'', ''b.mp3''] \<mapsto> File 700)"

definition mktemp_fixed :: "fs \<Rightarrow> path" where
  "mktemp_fixed fs = [''tmp1.opus'']"

section \<open>Classification of a finished job\<close>

text \<open>
  In \<^verbatim>\<open>convert_video_to_audio\<close> a success is reported only after the tool exited with code 0 and
  the output exists with a positive size.
\<close>

lemma convert_success_only:
  assumes "convert_video_to_audio run ff fs t = Inr ((True, m), fs')"
  shows "m = ConvertOK \<and> os_path_exists fs' (audio_path t)
           \<and> 0 < os_path_getsize fs' (audio_path t)
           \<and> (\<exists>cfg fs1 err. AUDIO_FORMATS (audio_format t) = Some cfg
                 \<and> run (build_cmd ff cfg t) fs1 = (CompletedProcess 0 err, fs'))"
  using assms unfolding convert_video_to_audio_def
  by (auto split: if_splits sum.splits option.splits prod.splits run_outcome.splits)

text \<open>
  When the tool exits with code 0, the result of \<^verbatim>\<open>convert_video_to_audio\<close> is decided by the
  output file alone.
\<close>

lemma convert_zero_exit:
  assumes "os_path_exists fs (video_path t)"
    and "os_makedirs fs (os_path_dirname (audio_path t)) = Inr fs1"
    and "overwrite t \<or> \<not> os_path_exists fs1 (audio_path t)"
    and "AUDIO_FORMATS (audio_format t) = Some cfg"
    and "run (build_cmd ff cfg t) fs1 = (CompletedProcess 0 err, fs2)"
  shows "convert_video_to_audio run ff fs t =
           Inr (if os_path_exists fs2 (audio_path t) \<and> 0 < os_path_getsize fs2 (audio_path t)
                then (True, ConvertOK) else (False, EmptyOrMissing), fs2)"
  using assms unfolding convert_video_to_audio_def by auto

text \<open>
  Claim C1. A job is a success only when the tool exits with code 0 and the destination
  exists with a positive size. \<^verbatim>\<open>two_stage_compress\<close> does not keep to this: its second stage
  tests the existence of the MP3 file but not its size, unlike the test after the first
  stage. For an input of 100000 bytes, an encoder that exits with code 0 in both stages and
  leaves an empty \<^verbatim>\<open>out/a.mp3\<close>, the function returns success with a final size of 0.
\<close>

theorem two_stage_compress_empty_output_is_success:
  "(case two_stage_compress tool_empty_output
           (fs_videos([''in'', ''a.wav''] \<mapsto> File 100000))
           [''in'', ''a.wav''] [''out'', ''a.mp3''] ''6k'' ''16k'' [''tmp1.opus''] of
      (r, fs') \<Rightarrow>
        r = (True, CompressOK 0 100000)
        \<and> fs' [''out'', ''a.mp3''] = Some (File 0)
        \<and> os_path_getsize fs' [''out'', ''a.mp3''] = 0)"
  by (simp add: two_stage_compress_def two_stage_body_def tool_empty_output_def fs_videos_def
        os_path_exists_def os_path_getsize_def os_unlink_def opus_cmd_def mp3_cmd_def
        path_str_def)

section \<open>Names and destinations\<close>

lemma suffix_take: "suffix name \<noteq> [] \<Longrightarrow> take (length name - length (suffix name)) name = stem name"
  by (auto simp: suffix_def stem_def split: option.splits if_splits)

lemma stem_when_no_suffix: "suffix name = [] \<Longrightarrow> stem name = name"
  by (auto simp: suffix_def stem_def split: option.splits if_splits)

lemma with_suffix_eq: "path_name p \<noteq> [] \<Longrightarrow> with_suffix p sfx = Inr (butlast p @ [stem (path_name p) @ sfx])"
  by (simp add: with_suffix_def suffix_take stem_when_no_suffix)

lemma relative_to_append: "relative_to (inp @ rel) inp = Inr rel"
  by (simp add: relative_to_def)

lemma path_name_append: "rel \<noteq> [] \<Longrightarrow> is_name (last rel) \<Longrightarrow> path_name (inp @ rel) = last rel"
  by (auto simp: path_name_def is_name_def append_eq_Cons_conv)

lemma path_name_rel: "rel \<noteq> [] \<Longrightarrow> is_name (last rel) \<Longrightarrow> path_name rel = last rel"
  using path_name_append[of rel "[]"] by simp

lemma audio_file_for_eq:
  assumes "rel \<noteq> []" "is_name (last rel)" "AUDIO_FORMATS fmt = Some cfg"
  shows "audio_file_for inp outp keep fmt (inp @ rel) =
     Inr (outp @ (if keep then butlast rel else []) @ [stem (last rel) @ ext cfg])"
  using assms
  by (auto simp: audio_file_for_def relative_to_append path_name_append path_name_rel with_suffix_eq is_name_def)

section \<open>The directory scan\<close>

lemma walk_iff:
  "p \<in> set (walk root e) \<longleftrightarrow> (\<exists>rel. rel \<noteq> [] \<and> p = root @ rel \<and> file_at e rel)"
proof (induction root e arbitrary: p rule: walk.induct)
  case (1 root)
  show ?case by (auto simp: neq_Nil_conv)
next
  case (2 root l)
  show ?case
  proof
    assume "p \<in> set (walk root (Sub l))"
    then consider (direct) n e where "(n, e) \<in> set l" "is_reg e" "p = root @ [n]"
      | (deep) n e where "(n, e) \<in> set l" "p \<in> set (walk (root @ [n]) e)"
      by auto
    then show "\<exists>rel. rel \<noteq> [] \<and> p = root @ rel \<and> file_at (Sub l) rel"
    proof cases
      case direct
      then have "file_at (Sub l) [n]" by (force simp: list_ex_iff)
      with direct show ?thesis by blast
    next
      case deep
      with "2.IH"[of "(n, e)" p] obtain rel where r: "rel \<noteq> []" "p = (root @ [n]) @ rel" "file_at e rel"
        by auto
      with deep have "file_at (Sub l) (n # rel)" by (force simp: list_ex_iff)
      with r show ?thesis by (intro exI[of _ "n # rel"]) simp
    qed
  next
    assume "\<exists>rel. rel \<noteq> [] \<and> p = root @ rel \<and> file_at (Sub l) rel"
    then obtain n rel' where r: "p = root @ n # rel'" "file_at (Sub l) (n # rel')"
      by (auto simp: neq_Nil_conv)
    then obtain e where e: "(n, e) \<in> set l" "file_at e rel'"
      by (auto simp: list_ex_iff)
    show "p \<in> set (walk root (Sub l))"
    proof (cases rel')
      case Nil
      with r e show ?thesis by force
    next
      case (Cons a list)
      with e r "2.IH"[of "(n, e)" p] have "p \<in> set (walk (root @ [n]) e)" by auto
      with e show ?thesis by force
    qed
  qed
qed

text \<open>
  The scan of \<^verbatim>\<open>batch_convert\<close> selects exactly the regular files whose lower-cased suffix is
  in the list of video formats: the direct children without the recursive flag, the files
  at any depth with it.
\<close>

lemma find_video_files_flat_iff:
  "p \<in> set (find_video_files False inp l) \<longleftrightarrow>
     (\<exists>n e. (n, e) \<in> set l \<and> is_reg e \<and> p = inp @ [n]
        \<and> str_lower (suffix (path_name p)) \<in> set SUPPORTED_VIDEO_FORMATS)"
  by (force simp: find_video_files_def iterdir_def)

lemma find_video_files_recursive_iff:
  "p \<in> set (find_video_files True inp l) \<longleftrightarrow>
     (\<exists>rel. rel \<noteq> [] \<and> p = inp @ rel \<and> file_at (Sub l) rel
        \<and> str_lower (suffix (path_name p)) \<in> set SUPPORTED_VIDEO_FORMATS)"
  unfolding find_video_files_def using walk_iff[of p inp "Sub l"] by auto

text \<open>
  Claim C7. A file is selected if and only if its extension, compared without regard to
  case, is in the allow-list of the task. \<^verbatim>\<open>compress_mp4_files\<close> of vid\_compresser.py lists
  three spellings of the extension and compares exactly: the regular file \<^verbatim>\<open>a.mP4\<close>, whose
  lower-cased extension is in the lower-cased list and which the scan of video2audio.py
  selects, is not selected.
\<close>

theorem compress_mp4_misses_mixed_case:
  "compress_mp4_selected listing_mixed_case = []
   \<and> str_lower (snd (splitext ''a.mP4'')) \<in> set (map str_lower video_extensions)
   \<and> find_video_files False [''in''] listing_mixed_case = [[''in'', ''a.mP4'']]"
  by code_simp

section \<open>The task loop\<close>

lemma make_tasks_dest:
  "make_tasks opts inp outp fs vs = Inr (ts, sk, fs') \<Longrightarrow> t \<in> set ts \<Longrightarrow>
     video_path t \<in> set vs \<and>
     audio_file_for inp outp (keep_structure opts) (opt_audio_format opts) (video_path t) = Inr (audio_path t)"
proof (induction vs arbitrary: fs ts sk)
  case Nil
  then show ?case by simp
next
  case (Cons v vs)
  then show ?case
    by (fastforce simp: make_task_def split: sum.splits if_splits prod.splits)
qed

lemma make_tasks_counts:
  "make_tasks opts inp outp fs vs = Inr (ts, sk, fs') \<Longrightarrow> sk + length ts = length vs"
proof (induction vs arbitrary: fs ts sk)
  case Nil
  then show ?case by simp
next
  case (Cons v vs)
  then show ?case
    by (fastforce split: sum.splits if_splits prod.splits)
qed

lemma os_mkdir_mono: "os_mkdir fs p = Inr fs' \<Longrightarrow> os_path_exists fs q \<Longrightarrow> os_path_exists fs' q"
  by (auto simp: os_mkdir_def os_path_exists_def split: if_splits option.splits node.splits)

lemma path_mkdir_mono: "path_mkdir fs p = Inr fs' \<Longrightarrow> os_path_exists fs q \<Longrightarrow> os_path_exists fs' q"
proof (induction fs p arbitrary: fs' rule: path_mkdir.induct)
  case (1 fs p)
  from "1.prems" show ?case
    apply (subst (asm) path_mkdir.simps)
    apply (auto split: sum.splits if_splits dest: os_mkdir_mono "1.IH")
    done
qed

lemma make_tasks_mono:
  "make_tasks opts inp outp fs vs = Inr (ts, sk, fs') \<Longrightarrow> os_path_exists fs q \<Longrightarrow> os_path_exists fs' q"
proof (induction vs arbitrary: fs ts sk)
  case Nil
  then show ?case by simp
next
  case (Cons v vs)
  then show ?case
    by (fastforce split: sum.splits if_splits prod.splits dest: path_mkdir_mono)
qed



lemma find3: "find_video_files False [''in''] listing_videos = videos3"
  by code_simp

lemma stems: "stem ''a.mp4'' = ''a''" "stem ''b.mp4'' = ''b''" "stem ''c.avi'' = ''c''" "stem ''a.avi'' = ''a''"
  by code_simp+

lemma make_tasks_videos3:
  "make_tasks default_options [''in''] [''out''] fs_videos videos3 = Inr ([task_a, task_b, task_c], 0, fs_videos)"
  by (simp add: videos3_def default_options_def audio_file_for_def task_a_def task_b_def task_c_def
        AUDIO_FORMATS_def path_name_def stems)

text \<open>
  Claim C8. The destination of a job is a function of the path of the source relative to
  the input root, of the extension of the chosen profile and of the structure flag, for a
  given output root: two task loops that agree on these give the file the same destination,
  whatever their input roots, file systems and other options are.
\<close>

theorem destination_deterministic:
  assumes "make_tasks opts1 inp1 outp fs1 vs1 = Inr (ts1, sk1, fs1')"
    and "make_tasks opts2 inp2 outp fs2 vs2 = Inr (ts2, sk2, fs2')"
    and "t1 \<in> set ts1" and "t2 \<in> set ts2"
    and "video_path t1 = inp1 @ rel" and "video_path t2 = inp2 @ rel"
    and "rel \<noteq> []" and "is_name (last rel)"
    and "AUDIO_FORMATS (opt_audio_format opts1) = Some c1"
    and "AUDIO_FORMATS (opt_audio_format opts2) = Some c2"
    and "ext c1 = ext c2"
    and "keep_structure opts1 = keep_structure opts2"
  shows "audio_path t1 = audio_path t2"
proof -
  have "Inr (audio_path t1) =
          audio_file_for inp1 outp (keep_structure opts1) (opt_audio_format opts1) (inp1 @ rel)"
    using make_tasks_dest[OF assms(1,3)] assms(5) by simp
  also have "\<dots> = Inr (outp @ (if keep_structure opts1 then butlast rel else [])
                      @ [stem (last rel) @ ext c1])"
    using assms(7,8,9) by (rule audio_file_for_eq)
  also have "\<dots> = audio_file_for inp2 outp (keep_structure opts2) (opt_audio_format opts2) (inp2 @ rel)"
    using audio_file_for_eq[OF assms(7,8,10), of inp2 outp "keep_structure opts2"] assms(11,12) by simp
  also have "\<dots> = Inr (audio_path t2)"
    using make_tasks_dest[OF assms(2,4)] assms(6) by simp
  finally show ?thesis by simp
qed

theorem destination_deterministic_witness:
  "make_tasks default_options [''in''] [''out''] fs_videos videos3 =
     Inr ([task_a, task_b, task_c], 0, fs_videos)
   \<and> make_tasks (no_overwrite_options\<lparr>opt_quality := Some 0\<rparr>) [''/'', ''data''] [''out'']
        fs_b_done [[''/'', ''data'', ''a.mp4'']] = Inr ([task_a_other_root], 0, fs_b_done)
   \<and> video_path task_a = [''in''] @ [''a.mp4'']
   \<and> video_path task_a_other_root = [''/'', ''data''] @ [''a.mp4'']
   \<and> is_name (last [''a.mp4''])
   \<and> audio_path task_a = audio_path task_a_other_root"
proof -
  have h2: "make_tasks (no_overwrite_options\<lparr>opt_quality := Some 0\<rparr>) [''/'', ''data''] [''out'']
        fs_b_done [[''/'', ''data'', ''a.mp4'']] = Inr ([task_a_other_root], 0, fs_b_done)"
    by (simp add: no_overwrite_options_def default_options_def audio_file_for_def
          task_a_other_root_def AUDIO_FORMATS_def path_name_def stems os_path_exists_def
          fs_b_done_def fs_videos_def)
  have v1: "video_path task_a = [''in''] @ [''a.mp4'']"
    by (simp add: task_a_def make_task_def)
  have v2: "video_path task_a_other_root = [''/'', ''data''] @ [''a.mp4'']"
    by (simp add: task_a_other_root_def make_task_def)
  have n: "is_name (last [''a.mp4''])" by (simp add: is_name_def)
  have c1: "AUDIO_FORMATS (opt_audio_format default_options) =
              Some \<lparr>ext = ''.mp3'', codec = ''libmp3lame'', args = [''-q:a'', ''2''], bitrate = Some ''192k''\<rparr>"
    by (simp add: default_options_def AUDIO_FORMATS_def)
  have c2: "AUDIO_FORMATS (opt_audio_format (no_overwrite_options\<lparr>opt_quality := Some 0\<rparr>)) =
              Some \<lparr>ext = ''.mp3'', codec = ''libmp3lame'', args = [''-q:a'', ''2''], bitrate = Some ''192k''\<rparr>"
    by (simp add: no_overwrite_options_def default_options_def AUDIO_FORMATS_def)
  have k: "keep_structure default_options = keep_structure (no_overwrite_options\<lparr>opt_quality := Some 0\<rparr>)"
    by (simp add: no_overwrite_options_def default_options_def)
  have "audio_path task_a = audio_path task_a_other_root"
    using destination_deterministic[OF make_tasks_videos3 h2 _ _ v1 v2 _ n c1 c2 _ k]
    by simp
  with make_tasks_videos3 h2 v1 v2 n show ?thesis by blast
qed

text \<open>
  Two distinct jobs of one run can have the same destination: \<^verbatim>\<open>a.mp4\<close> and \<^verbatim>\<open>a.avi\<close> in one
  directory are both sent to \<^verbatim>\<open>a.mp3\<close>, with and without the recursive and structure flags.
\<close>

theorem same_stem_same_destination:
  "(case make_tasks default_options [''in''] [''out''] fs_videos
           (find_video_files False [''in''] listing_same_stem) of
      Inr (ts, sk, fs') \<Rightarrow>
        map video_path ts = [[''in'', ''a.mp4''], [''in'', ''a.avi'']]
        \<and> map audio_path ts = [[''out'', ''a.mp3''], [''out'', ''a.mp3'']]
    | Inl e \<Rightarrow> False)
   \<and> (case make_tasks (default_options\<lparr>recursive := True, keep_structure := True\<rparr>)
             [''in''] [''out''] fs_videos (find_video_files True [''in''] listing_same_stem) of
        Inr (ts, sk, fs') \<Rightarrow>
          map video_path ts = [[''in'', ''a.mp4''], [''in'', ''a.avi'']]
          \<and> map audio_path ts = [[''out'', ''a.mp3''], [''out'', ''a.mp3'']]
      | Inl e \<Rightarrow> False)"
  by code_simp

text \<open>
  Claim C9, amended. Two jobs of one run have the same destination exactly when the stems
  of their file names are equal and, if the directory structure is kept, their relative
  directories are equal; jobs that differ in the stem (or, with the structure kept, in the
  directory) have distinct destinations.
\<close>

theorem destinations_equal_iff:
  assumes "make_tasks opts inp outp fs vs = Inr (ts, sk, fs')"
    and "t1 \<in> set ts" and "t2 \<in> set ts"
    and "video_path t1 = inp @ rel1" and "video_path t2 = inp @ rel2"
    and "rel1 \<noteq> []" and "rel2 \<noteq> []"
    and "is_name (last rel1)" and "is_name (last rel2)"
  shows "audio_path t1 = audio_path t2 \<longleftrightarrow>
           stem (last rel1) = stem (last rel2)
           \<and> (keep_structure opts \<longrightarrow> butlast rel1 = butlast rel2)"
proof -
  let ?k = "keep_structure opts"
  have d1: "audio_file_for inp outp ?k (opt_audio_format opts) (inp @ rel1) = Inr (audio_path t1)"
    using make_tasks_dest[OF assms(1,2)] assms(4) by simp
  have d2: "audio_file_for inp outp ?k (opt_audio_format opts) (inp @ rel2) = Inr (audio_path t2)"
    using make_tasks_dest[OF assms(1,3)] assms(5) by simp
  from d1 obtain cfg where cfg: "AUDIO_FORMATS (opt_audio_format opts) = Some cfg"
    by (auto simp: audio_file_for_def split: if_splits sum.splits option.splits)
  have a1: "audio_path t1 = outp @ (if ?k then butlast rel1 else []) @ [stem (last rel1) @ ext cfg]"
    using d1 audio_file_for_eq[OF assms(6,8) cfg, of inp outp ?k] by simp
  have a2: "audio_path t2 = outp @ (if ?k then butlast rel2 else []) @ [stem (last rel2) @ ext cfg]"
    using d2 audio_file_for_eq[OF assms(7,9) cfg, of inp outp ?k] by simp
  show ?thesis unfolding a1 a2 by auto
qed

theorem destinations_equal_iff_witness:
  "make_tasks default_options [''in''] [''out''] fs_videos videos3 =
     Inr ([task_a, task_b, task_c], 0, fs_videos)
   \<and> video_path task_a = [''in''] @ [''a.mp4'']
   \<and> video_path task_b = [''in''] @ [''b.mp4'']
   \<and> is_name (last [''a.mp4'']) \<and> is_name (last [''b.mp4''])
   \<and> stem ''a.mp4'' \<noteq> stem ''b.mp4''
   \<and> audio_path task_a \<noteq> audio_path task_b"
proof -
  have v1: "video_path task_a = [''in''] @ [''a.mp4'']"
    by (simp add: task_a_def make_task_def)
  have v2: "video_path task_b = [''in''] @ [''b.mp4'']"
    by (simp add: task_b_def make_task_def)
  have n1: "is_name (last [''a.mp4''])" and n2: "is_name (last [''b.mp4''])"
    by (simp_all add: is_name_def)
  have s: "stem ''a.mp4'' \<noteq> stem ''b.mp4''" by (simp add: stems)
  have "audio_path task_a \<noteq> audio_path task_b"
    using destinations_equal_iff[OF make_tasks_videos3 _ _ v1 v2 _ _ n1 n2] s by simp
  with make_tasks_videos3 v1 v2 n1 n2 s show ?thesis by blast
qed



text \<open>
  Without tasks, \<^verbatim>\<open>batch_convert\<close> returns its statistics without consulting the tool: the
  result is the same for every tool and every completion order.
\<close>

lemma batch_convert_no_tasks:
  assumes "os_path_exists fs inp" "os_path_isdir fs inp"
    and "path_mkdir fs (case od of None \<Rightarrow> inp @ [''audio_output''] | Some d \<Rightarrow> d) = Inr fs1"
    and "find_video_files (recursive opts) inp l \<noteq> []"
    and "make_tasks opts inp (case od of None \<Rightarrow> inp @ [''audio_output''] | Some d \<Rightarrow> d) fs1
           (find_video_files (recursive opts) inp l) = Inr ([], sk, fs2)"
  shows "batch_convert run pick ff fs l inp od opts =
     Inr (StatsDict \<lparr>total = length (find_video_files (recursive opts) inp l), success = 0, failed = 0,
            skipped = sk, no_audio = 0,
            output_dir = (case od of None \<Rightarrow> inp @ [''audio_output''] | Some d \<Rightarrow> d)\<rparr>, [], fs2)"
  using assms by (simp add: batch_convert_def Let_def)

lemma rerun_no_invocation:
  "batch_convert run pick ff fs_all_done listing_videos [''in''] (Some [''out'']) no_overwrite_options =
     Inr (StatsDict \<lparr>total = 3, success = 0, failed = 0, skipped = 3, no_audio = 0,
            output_dir = [''out'']\<rparr>, [], fs_all_done)"
proof -
  have m: "path_mkdir fs_all_done [''out''] = Inr fs_all_done"
    by (simp add: path_mkdir.simps os_mkdir_def os_path_isdir_def fs_all_done_def fs_videos_def)
  have t: "make_tasks no_overwrite_options [''in''] [''out''] fs_all_done videos3 = Inr ([], 3, fs_all_done)"
    by (simp add: videos3_def no_overwrite_options_def default_options_def audio_file_for_def
          AUDIO_FORMATS_def path_name_def stems os_path_exists_def fs_all_done_def fs_videos_def)
  have r: "recursive no_overwrite_options = False"
    by (simp add: no_overwrite_options_def default_options_def)
  have e: "os_path_exists fs_all_done [''in'']" "os_path_isdir fs_all_done [''in'']"
    by (simp_all add: os_path_exists_def os_path_isdir_def fs_all_done_def fs_videos_def)
  show ?thesis
    using batch_convert_no_tasks[of fs_all_done "[''in'']" "Some [''out'']" fs_all_done no_overwrite_options
        listing_videos 3 fs_all_done run pick ff] m t r e
    by (simp add: find3 videos3_def)
qed

section \<open>The counters of a batch\<close>

lemma run_sequential_counts:
  "run_sequential run ff fs ts = Inr (s, f, pr, fs') \<Longrightarrow> s + f = length ts"
proof (induction ts arbitrary: fs s f pr)
  case Nil
  then show ?case by simp
next
  case (Cons t ts)
  then show ?case by (fastforce split: sum.splits prod.splits if_splits)
qed

lemma run_pooled_counts:
  "run_pooled run ff pick fs pending = (s, f, pr, fs') \<Longrightarrow> s + f = length pending"
proof (induction run ff pick fs pending arbitrary: s f pr fs' rule: run_pooled.induct)
  case (1 run ff pick fs pending)
  show ?case
  proof (cases "pending = []")
    case True
    with "1.prems" show ?thesis by (simp add: run_pooled.simps)
  next
    case False
    let ?i = "pick pending mod length pending"
    let ?rest = "take ?i pending @ drop (Suc ?i) pending"
    have i: "?i < length pending" using False by simp
    then have len: "Suc (length ?rest) = length pending" by auto
    show ?thesis
    proof (cases "convert_video_to_audio run ff fs (pending ! ?i)")
      case (Inl e)
      obtain s2 f2 pr2 fs2 where r: "run_pooled run ff pick fs ?rest = (s2, f2, pr2, fs2)"
        by (metis prod_cases4)
      from "1.IH"(1)[OF False refl refl refl Inl r] have "s2 + f2 = length ?rest" .
      moreover from "1.prems" False Inl r have "s = s2 \<and> f = Suc f2"
        by (subst (asm) run_pooled.simps) (simp add: Let_def)
      ultimately show ?thesis using len by simp
    next
      case (Inr x)
      then obtain ok msg fs1 where x: "x = ((ok, msg), fs1)" by (metis prod.exhaust)
      obtain s2 f2 pr2 fs2 where r: "run_pooled run ff pick fs1 ?rest = (s2, f2, pr2, fs2)"
        by (metis prod_cases4)
      from "1.IH"(2)[OF False refl refl refl Inr[unfolded x] refl refl r] have "s2 + f2 = length ?rest" .
      moreover from "1.prems" False Inr x r have "s + f = Suc (s2 + f2)"
        by (subst (asm) run_pooled.simps) (auto simp: Let_def split: if_splits)
      ultimately show ?thesis using len by simp
    qed
  qed
qed

text \<open>
  Claim C10. When the input directory exists and the scan finds a video file, the statistics
  that \<^verbatim>\<open>batch_convert\<close> returns satisfy success + failed + skipped = total, and the counter
  \<^verbatim>\<open>no_audio\<close> is 0.
\<close>

theorem stats_add_up:
  assumes "os_path_exists fs inp" "os_path_isdir fs inp"
    and "find_video_files (recursive opts) inp l \<noteq> []"
    and "batch_convert run pick ff fs l inp od opts = Inr (res, printed, fs')"
  shows "\<exists>st. res = StatsDict st \<and> success st + failed st + skipped st = total st \<and> no_audio st = 0
            \<and> total st = length (find_video_files (recursive opts) inp l)"
proof -
  let ?out = "case od of None \<Rightarrow> inp @ [''audio_output''] | Some d \<Rightarrow> d"
  let ?vs = "find_video_files (recursive opts) inp l"
  from assms obtain fs1 where m: "path_mkdir fs ?out = Inr fs1"
    by (auto simp: batch_convert_def Let_def split: sum.splits)
  from assms m obtain ts sk fs2 where mk: "make_tasks opts inp ?out fs1 ?vs = Inr (ts, sk, fs2)"
    by (auto simp: batch_convert_def Let_def split: sum.splits)
  have cnt: "sk + length ts = length ?vs" using mk by (rule make_tasks_counts)
  show ?thesis
  proof (cases "max_workers opts > 1 \<and> length ts > 1")
    case True
    obtain s f pr fs3 where r: "run_pooled run ff pick fs2 ts = (s, f, pr, fs3)"
      by (metis prod_cases4)
    then have "s + f = length ts" by (rule run_pooled_counts)
    moreover from assms m mk True r
    have "res = StatsDict \<lparr>total = length ?vs, success = s, failed = f, skipped = sk, no_audio = 0, output_dir = ?out\<rparr>"
      by (auto simp: batch_convert_def Let_def)
    ultimately show ?thesis using cnt by simp
  next
    case False
    with assms m mk obtain s f pr fs3 where r: "run_sequential run ff fs2 ts = Inr (s, f, pr, fs3)"
      and res: "res = StatsDict \<lparr>total = length ?vs, success = s, failed = f, skipped = sk, no_audio = 0, output_dir = ?out\<rparr>"
      by (auto simp: batch_convert_def Let_def split: sum.splits)
    from r have "s + f = length ts" by (rule run_sequential_counts)
    with res cnt show ?thesis by simp
  qed
qed

theorem stats_add_up_witness:
  "os_path_exists fs_videos [''in''] \<and> os_path_isdir fs_videos [''in'']
   \<and> find_video_files (recursive default_options) [''in''] listing_videos \<noteq> []
   \<and> (\<exists>res printed fs'.
         batch_convert tool_timeout_c (\<lambda>ts. 0) ''ffmpeg'' fs_videos listing_videos [''in'']
           (Some [''out'']) default_options = Inr (res, printed, fs')
         \<and> (\<exists>st. res = StatsDict st \<and> success st + failed st + skipped st = total st
                \<and> no_audio st = 0 \<and> total st = 3))"
proof -
  have e: "os_path_exists fs_videos [''in'']" "os_path_isdir fs_videos [''in'']"
    by code_simp+
  have f: "find_video_files (recursive default_options) [''in''] listing_videos \<noteq> []"
    by code_simp
  have n: "length (find_video_files (recursive default_options) [''in''] listing_videos) = 3"
    by code_simp
  have "case batch_convert tool_timeout_c (\<lambda>ts. 0) ''ffmpeg'' fs_videos listing_videos [''in'']
           (Some [''out'']) default_options of Inl e \<Rightarrow> False | Inr x \<Rightarrow> True"
    by code_simp
  then obtain res printed fs' where
    b: "batch_convert tool_timeout_c (\<lambda>ts. 0) ''ffmpeg'' fs_videos listing_videos [''in'']
           (Some [''out'']) default_options = Inr (res, printed, fs')"
    by (auto split: sum.splits)
  from stats_add_up[OF e f b] n e f b show ?thesis by auto
qed

section \<open>Sequential and pooled runs\<close>

text \<open>
  A job whose output path is a bare file name raises in \<^verbatim>\<open>os.makedirs\<close>, before the \<^verbatim>\<open>try\<close>
  block of \<^verbatim>\<open>convert_video_to_audio\<close>.
\<close>

lemma convert_bare_name_raises:
  assumes "os_path_exists fs (video_path t)" and "os_path_dirname (audio_path t) = []"
  shows "convert_video_to_audio run ff fs t = Inl FileNotFoundError"
  using assms by (simp add: convert_video_to_audio_def os_makedirs.simps)

text \<open>
  When no job raises, the pooled loop that completes the jobs in submission order returns
  what the sequential loop returns.
\<close>

lemma run_pooled_in_order:
  "run_sequential run ff fs ts = Inr r \<Longrightarrow> run_pooled run ff (\<lambda>pending. 0) fs ts = r"
proof (induction ts arbitrary: fs r)
  case Nil
  then show ?case by (simp add: run_pooled.simps)
next
  case (Cons t ts)
  from Cons.prems obtain ok msg fs1 where
    c: "convert_video_to_audio run ff fs t = Inr ((ok, msg), fs1)"
    by (auto split: sum.splits)
  from Cons.prems c obtain r1 where
    r1: "run_sequential run ff fs1 ts = Inr r1"
    by (auto split: sum.splits)
  from Cons.IH[OF r1] have p: "run_pooled run ff (\<lambda>pending. 0) fs1 ts = r1" .
  obtain s f pr fs2 where r1eq: "r1 = (s, f, pr, fs2)" by (metis prod_cases4)
  from Cons.prems c r1 r1eq p show ?case
    by (subst run_pooled.simps) (auto simp: Let_def)
qed

text \<open>
  Claim C5. A run with one worker and a run with several workers give the same counters.
  This fails when a job raises: the pooled loop catches the exception and counts a failure,
  the sequential loop lets it end \<^verbatim>\<open>batch_convert\<close>. With the current directory as output
  directory every output path is a bare file name, so with one worker the batch ends with
  \<^verbatim>\<open>FileNotFoundError\<close> and returns no counters, and with two workers it returns total 3 and
  failed 3.
\<close>

theorem sequential_and_pooled_differ:
  "(case batch_convert tool_writes_cwd (\<lambda>ts. 0) ''ffmpeg'' fs_videos listing_videos [''in'']
           (Some []) (default_options\<lparr>max_workers := 1\<rparr>) of
      Inl e \<Rightarrow> e = FileNotFoundError
    | Inr x \<Rightarrow> False)
   \<and> (case batch_convert tool_writes_cwd (\<lambda>ts. 0) ''ffmpeg'' fs_videos listing_videos [''in'']
             (Some []) default_options of
        Inr (StatsDict st, printed, fs') \<Rightarrow>
          total st = 3 \<and> success st = 0 \<and> failed st = 3 \<and> skipped st = 0
          \<and> printed = [(''a.mp4'', JobException FileNotFoundError),
                        (''b.mp4'', JobException FileNotFoundError),
                        (''c.avi'', JobException FileNotFoundError)]
      | _ \<Rightarrow> False)"
  by code_simp

theorem sequential_and_pooled_differ_witness:
  "(\<exists>e. batch_convert tool_writes_cwd (\<lambda>ts. 0) ''ffmpeg'' fs_videos listing_videos [''in'']
          (Some []) (default_options\<lparr>max_workers := 1\<rparr>) = Inl e)
   \<and> (\<exists>st printed fs'.
         batch_convert tool_writes_cwd (\<lambda>ts. 0) ''ffmpeg'' fs_videos listing_videos [''in'']
           (Some []) default_options = Inr (StatsDict st, printed, fs')
         \<and> failed st = 3)"
  using sequential_and_pooled_differ
  by (auto split: sum.splits prod.splits batch_result.splits)

section \<open>Timeouts\<close>

text \<open>The sequential loop over two lists of tasks is the loop over the first, then the second.\<close>

lemma run_sequential_append:
  "run_sequential run ff fs (xs @ ys) =
     (case run_sequential run ff fs xs of
        Inl e \<Rightarrow> Inl e
      | Inr (s1, f1, pr1, fs1) \<Rightarrow>
          (case run_sequential run ff fs1 ys of
             Inl e \<Rightarrow> Inl e
           | Inr (s2, f2, pr2, fs2) \<Rightarrow> Inr (s1 + s2, f1 + f2, pr1 @ pr2, fs2)))"
proof (induction xs arbitrary: fs)
  case Nil
  show ?case by (simp split: sum.splits prod.splits)
next
  case (Cons x xs)
  show ?case
    by (simp add: Cons.IH split: sum.splits prod.splits)
qed

text \<open>A job whose invocation runs into the timeout fails with the timeout message.\<close>

lemma convert_timeout:
  assumes "os_path_exists fs1 (video_path t)"
    and "os_makedirs fs1 (os_path_dirname (audio_path t)) = Inr fs2"
    and "overwrite t \<or> \<not> os_path_exists fs2 (audio_path t)"
    and "AUDIO_FORMATS (audio_format t) = Some cfg"
    and "run (build_cmd ff cfg t) fs2 = (TimeoutExpired, fs3)"
  shows "convert_video_to_audio run ff fs1 t = Inr ((False, ConvertTimeout), fs3)"
  using assms unfolding convert_video_to_audio_def by auto

lemma sequential_timeout:
  assumes "run_sequential run ff fs pre = Inr (s1, f1, pr1, fs1)"
    and "convert_video_to_audio run ff fs1 t = Inr ((False, ConvertTimeout), fs3)"
  shows "run_sequential run ff fs (pre @ t # post) =
           (case run_sequential run ff fs3 post of
              Inl e \<Rightarrow> Inl e
            | Inr (s2, f2, pr2, fs4) \<Rightarrow>
                Inr (s1 + s2, Suc (f1 + f2),
                     pr1 @ (os_path_basename (video_path t), ConvertTimeout) # pr2, fs4))"
  using assms by (simp add: run_sequential_append split: sum.splits prod.splits)

text \<open>
  In \<^verbatim>\<open>two_stage_compress\<close> a timeout of either stage gives the failure "timeout", and the
  folder loop goes on with the remaining names.
\<close>

lemma two_stage_timeout:
  assumes "os_path_exists fs inp"
    and "run (opus_cmd inp ob tmp) (fs(tmp \<mapsto> File 0)) = (TimeoutExpired, fs1)
         \<or> (\<exists>err fsm. run (opus_cmd inp ob tmp) (fs(tmp \<mapsto> File 0)) = (CompletedProcess 0 err, fsm)
               \<and> os_path_exists fsm tmp \<and> 0 < os_path_getsize fsm tmp
               \<and> run (mp3_cmd tmp mb outp) fsm = (TimeoutExpired, fs1))"
    and "\<not> os_path_isdir fs1 tmp"
  shows "two_stage_compress run fs inp outp ob mb tmp = ((False, CompressTimeout), fs1(tmp := None))"
proof -
  have b: "two_stage_body run (fs(tmp \<mapsto> File 0)) inp outp ob mb tmp (os_path_getsize fs inp)
             = (RaisedTimeout, fs1)"
    using assms(2) by (auto simp: two_stage_body_def)
  have u: "(if os_path_exists fs1 tmp then os_unlink fs1 tmp else Inr fs1) = Inr (fs1(tmp := None))"
    using assms(3)
    by (auto simp: os_path_exists_def os_path_isdir_def os_unlink_def split: option.splits node.splits)
  show ?thesis using assms(1) b u by (simp add: two_stage_compress_def)
qed

lemma compress_loop_timeout:
  assumes "str_lower (snd (splitext filename)) \<in> set audio_extensions"
    and "os_path_isfile fs (idir @ [filename])"
    and "two_stage_compress run fs (idir @ [filename]) (odir @ [fst (splitext filename) @ ''.mp3''])
           ob mb (mktemp fs) = ((False, CompressTimeout), fs1)"
  shows "compress_loop run mktemp ob mb idir odir fs (filename # rest) =
           (case compress_loop run mktemp ob mb idir odir fs1 rest of
              (processed_count, failed_files, fs2) \<Rightarrow>
                (processed_count, (filename, CompressTimeout) # failed_files, fs2))"
  using assms by (simp split: prod.splits)

text \<open>
  With an encoder that always runs into the timeout, both files of a folder are processed
  and fail with the timeout message, and no temporary file is left.
\<close>

lemma splitext_wavs:
  "splitext ''a.wav'' = (''a'', ''.wav'')" "splitext ''b.wav'' = (''b'', ''.wav'')"
  "str_lower ''.wav'' \<in> set audio_extensions"
  by code_simp+

lemma compress_loop_all_time_out:
  "compress_loop tool_always_timeout (\<lambda>fs. [''tmp1.opus'']) ''6k'' ''16k'' [''in''] [''out'']
     fs_wavs [''a.wav'', ''b.wav''] =
     (0, [(''a.wav'', CompressTimeout), (''b.wav'', CompressTimeout)], fs_wavs)"
proof -
  have t: "two_stage_compress tool_always_timeout fs_wavs [''in'', n] outp ''6k'' ''16k''
             [''tmp1.opus''] = ((False, CompressTimeout), fs_wavs)"
    if "os_path_exists fs_wavs [''in'', n]" for n outp
  proof -
    have "two_stage_compress tool_always_timeout fs_wavs [''in'', n] outp ''6k'' ''16k''
            [''tmp1.opus''] =
          ((False, CompressTimeout), (fs_wavs([''tmp1.opus''] \<mapsto> File 0))([''tmp1.opus''] := None))"
      using that
      by (intro two_stage_timeout)
         (simp_all add: tool_always_timeout_def os_path_isdir_def)
    moreover have "(fs_wavs([''tmp1.opus''] \<mapsto> File 0))([''tmp1.opus''] := None) = fs_wavs"
      by (simp add: fs_wavs_def)
    ultimately show ?thesis by simp
  qed
  have e: "os_path_exists fs_wavs [''in'', ''a.wav'']" "os_path_exists fs_wavs [''in'', ''b.wav'']"
    "os_path_isfile fs_wavs [''in'', ''a.wav'']" "os_path_isfile fs_wavs [''in'', ''b.wav'']"
    by (simp_all add: os_path_exists_def os_path_isfile_def fs_wavs_def)
  show ?thesis
    by (simp add: splitext_wavs e t)
qed

lemma os_makedirs_existing:
  assumes "p \<noteq> []" and "os_path_isdir fs p" and "butlast p = [] \<or> os_path_exists fs (butlast p)"
  shows "os_makedirs fs p = Inr fs"
  using assms
  by (subst os_makedirs.simps)
     (auto simp: mkdir_exist_ok_def os_mkdir_def os_path_isdir_def split: option.splits)

lemma run_ab:
  "run_sequential tool_timeout_c ''ffmpeg'' fs_videos [task_a, task_b] = Inr (2, 0, [], fs_ab_done)"
proof -
  have d: "os_makedirs fs [''out''] = Inr fs" if "os_path_isdir fs [''out'']" for fs
    using that by (simp add: os_makedirs_existing)
  have a: "convert_video_to_audio tool_timeout_c ''ffmpeg'' fs_videos task_a =
             Inr ((True, ConvertOK), fs_videos([''out'', ''a.mp3''] \<mapsto> File 600))"
    by (simp add: convert_video_to_audio_def task_a_def make_task_def default_options_def
          os_path_dirname_def d os_path_isdir_def os_path_exists_def os_path_getsize_def
          fs_videos_def AUDIO_FORMATS_def build_cmd_def path_str_def tool_timeout_c_def
          truthy_str_def truthy_int_def)
  have b: "convert_video_to_audio tool_timeout_c ''ffmpeg''
             (fs_videos([''out'', ''a.mp3''] \<mapsto> File 600)) task_b =
             Inr ((True, ConvertOK), fs_ab_done)"
    by (simp add: convert_video_to_audio_def task_b_def make_task_def default_options_def
          os_path_dirname_def d os_path_isdir_def os_path_exists_def os_path_getsize_def
          fs_videos_def fs_ab_done_def AUDIO_FORMATS_def build_cmd_def path_str_def
          tool_timeout_c_def truthy_str_def truthy_int_def)
  show ?thesis by (simp add: a b)
qed

text \<open>
  The folder loop over two lists of names is the loop over the first, then the second; the
  pooled loop, when the job that completes first runs into the timeout, counts a failure
  and goes on with the pending jobs.
\<close>

lemma compress_loop_append:
  "compress_loop run mktemp ob mb idir odir fs (xs @ ys) =
     (case compress_loop run mktemp ob mb idir odir fs xs of
        (n1, ff1, fs1) \<Rightarrow>
          (case compress_loop run mktemp ob mb idir odir fs1 ys of
             (n2, ff2, fs2) \<Rightarrow> (n1 + n2, ff1 @ ff2, fs2)))"
proof (induction xs arbitrary: fs)
  case Nil
  show ?case by (simp split: prod.splits)
next
  case (Cons x xs)
  show ?case by (simp add: Cons.IH split: prod.splits)
qed

lemma pooled_timeout:
  assumes "pending \<noteq> []"
    and "convert_video_to_audio run ff fs (pending ! (pick pending mod length pending))
           = Inr ((False, ConvertTimeout), fs3)"
  shows "run_pooled run ff pick fs pending =
           (case run_pooled run ff pick fs3
                   (take (pick pending mod length pending) pending
                    @ drop (Suc (pick pending mod length pending)) pending) of
              (s, f, pr, fs4) \<Rightarrow>
                (s, Suc f,
                 (os_path_basename (video_path (pending ! (pick pending mod length pending))),
                  ConvertTimeout) # pr, fs4))"
  using assms by (subst run_pooled.simps) (simp add: Let_def split: prod.splits)

lemma compress_loop_timeout_general:
  assumes "compress_loop run mktemp ob mb idir odir fs0 before = (n1, ff1, fs)"
    and "str_lower (snd (splitext filename)) \<in> set audio_extensions"
    and "os_path_isfile fs (idir @ [filename])"
    and "two_stage_compress run fs (idir @ [filename]) (odir @ [fst (splitext filename) @ ''.mp3''])
           ob mb (mktemp fs) = ((False, CompressTimeout), fs1)"
  shows "compress_loop run mktemp ob mb idir odir fs0 (before @ filename # rest) =
           (case compress_loop run mktemp ob mb idir odir fs1 rest of
              (n2, ff2, fs2) \<Rightarrow> (n1 + n2, ff1 @ (filename, CompressTimeout) # ff2, fs2))"
  using assms by (simp add: compress_loop_append split: prod.splits)

lemma isfile_exists: "os_path_isfile fs p \<Longrightarrow> os_path_exists fs p"
  by (auto simp: os_path_isfile_def os_path_exists_def split: option.splits)

text \<open>
  Claim C6, amended. A job whose invocation of the external tool exceeds the timeout is a
  failure whose message is the timeout text of the script (Chinese for "conversion timed
  out (more than 1 hour)" in video2audio.py and for "timeout" in audio\_compresser.py), and
  the other jobs are still processed. In the sequential loop the jobs before it count as
  they did, one failure with that message is added, and the jobs after it run as a run
  over those jobs alone would, from the file system that the timed-out job left. In the
  pooled loop the same holds for the jobs still pending when the timed-out job completes.
  In the folder loop of audio\_compresser.py a timeout of either stage fails the file, the
  temporary file is removed, and the remaining names are processed.
\<close>

theorem timeout_fails_job_only:
  "(run_sequential run ff fs pre = Inr (s1, f1, pr1, fs1)
      \<and> os_path_exists fs1 (video_path t)
      \<and> os_makedirs fs1 (os_path_dirname (audio_path t)) = Inr fs2
      \<and> (overwrite t \<or> \<not> os_path_exists fs2 (audio_path t))
      \<and> AUDIO_FORMATS (audio_format t) = Some cfg
      \<and> run (build_cmd ff cfg t) fs2 = (TimeoutExpired, fs3)
    \<longrightarrow> convert_video_to_audio run ff fs1 t = Inr ((False, ConvertTimeout), fs3)
        \<and> run_sequential run ff fs (pre @ t # post) =
            (case run_sequential run ff fs3 post of
               Inl e \<Rightarrow> Inl e
             | Inr (s2, f2, pr2, fs4) \<Rightarrow>
                 Inr (s1 + s2, Suc (f1 + f2),
                      pr1 @ (os_path_basename (video_path t), ConvertTimeout) # pr2, fs4)))
   \<and> (pending \<noteq> []
      \<and> os_path_exists pfs (video_path (pending ! (pick pending mod length pending)))
      \<and> os_makedirs pfs (os_path_dirname (audio_path (pending ! (pick pending mod length pending))))
           = Inr pfs2
      \<and> (overwrite (pending ! (pick pending mod length pending))
           \<or> \<not> os_path_exists pfs2 (audio_path (pending ! (pick pending mod length pending))))
      \<and> AUDIO_FORMATS (audio_format (pending ! (pick pending mod length pending))) = Some pcfg
      \<and> prun (build_cmd pff pcfg (pending ! (pick pending mod length pending))) pfs2
           = (TimeoutExpired, pfs3)
    \<longrightarrow> run_pooled prun pff pick pfs pending =
          (case run_pooled prun pff pick pfs3
                  (take (pick pending mod length pending) pending
                   @ drop (Suc (pick pending mod length pending)) pending) of
             (s, f, pr, fs4) \<Rightarrow>
               (s, Suc f,
                (os_path_basename (video_path (pending ! (pick pending mod length pending))),
                 ConvertTimeout) # pr, fs4)))
   \<and> (compress_loop crun mktemp ob mb idir odir cfs0 before = (n1, ff1, cfs)
      \<and> str_lower (snd (splitext filename)) \<in> set audio_extensions
      \<and> os_path_isfile cfs (idir @ [filename])
      \<and> (crun (opus_cmd (idir @ [filename]) ob (mktemp cfs)) (cfs(mktemp cfs \<mapsto> File 0))
             = (TimeoutExpired, cfs1)
          \<or> (\<exists>err fsm.
                crun (opus_cmd (idir @ [filename]) ob (mktemp cfs)) (cfs(mktemp cfs \<mapsto> File 0))
                  = (CompletedProcess 0 err, fsm)
                \<and> os_path_exists fsm (mktemp cfs) \<and> 0 < os_path_getsize fsm (mktemp cfs)
                \<and> crun (mp3_cmd (mktemp cfs) mb (odir @ [fst (splitext filename) @ ''.mp3''])) fsm
                     = (TimeoutExpired, cfs1)))
      \<and> \<not> os_path_isdir cfs1 (mktemp cfs)
    \<longrightarrow> two_stage_compress crun cfs (idir @ [filename])
            (odir @ [fst (splitext filename) @ ''.mp3'']) ob mb (mktemp cfs)
          = ((False, CompressTimeout), cfs1(mktemp cfs := None))
        \<and> compress_loop crun mktemp ob mb idir odir cfs0 (before @ filename # rest) =
            (case compress_loop crun mktemp ob mb idir odir (cfs1(mktemp cfs := None)) rest of
               (n2, ff2, fs2) \<Rightarrow> (n1 + n2, ff1 @ (filename, CompressTimeout) # ff2, fs2)))
   \<and> message_text ConvertTimeout =
         Some [36716, 25442, 36229, 26102, 32, 40, 36229, 36807, 49, 23567, 26102, 41]
   \<and> cmessage_text CompressTimeout = Some [36229, 26102]"
proof (intro conjI impI)
  assume a: "run_sequential run ff fs pre = Inr (s1, f1, pr1, fs1)
      \<and> os_path_exists fs1 (video_path t)
      \<and> os_makedirs fs1 (os_path_dirname (audio_path t)) = Inr fs2
      \<and> (overwrite t \<or> \<not> os_path_exists fs2 (audio_path t))
      \<and> AUDIO_FORMATS (audio_format t) = Some cfg
      \<and> run (build_cmd ff cfg t) fs2 = (TimeoutExpired, fs3)"
  then show c: "convert_video_to_audio run ff fs1 t = Inr ((False, ConvertTimeout), fs3)"
    by (intro convert_timeout) auto
  from a have "run_sequential run ff fs pre = Inr (s1, f1, pr1, fs1)" by simp
  then show "run_sequential run ff fs (pre @ t # post) =
            (case run_sequential run ff fs3 post of
               Inl e \<Rightarrow> Inl e
             | Inr (s2, f2, pr2, fs4) \<Rightarrow>
                 Inr (s1 + s2, Suc (f1 + f2),
                      pr1 @ (os_path_basename (video_path t), ConvertTimeout) # pr2, fs4))"
    using c by (rule sequential_timeout)
next
  let ?t = "pending ! (pick pending mod length pending)"
  assume a: "pending \<noteq> []
      \<and> os_path_exists pfs (video_path ?t)
      \<and> os_makedirs pfs (os_path_dirname (audio_path ?t)) = Inr pfs2
      \<and> (overwrite ?t \<or> \<not> os_path_exists pfs2 (audio_path ?t))
      \<and> AUDIO_FORMATS (audio_format ?t) = Some pcfg
      \<and> prun (build_cmd pff pcfg ?t) pfs2 = (TimeoutExpired, pfs3)"
  then have c: "convert_video_to_audio prun pff pfs ?t = Inr ((False, ConvertTimeout), pfs3)"
    by (intro convert_timeout) auto
  from a have "pending \<noteq> []" by simp
  then show "run_pooled prun pff pick pfs pending =
          (case run_pooled prun pff pick pfs3
                  (take (pick pending mod length pending) pending
                   @ drop (Suc (pick pending mod length pending)) pending) of
             (s, f, pr, fs4) \<Rightarrow>
               (s, Suc f, (os_path_basename (video_path ?t), ConvertTimeout) # pr, fs4))"
    using c by (rule pooled_timeout)
next
  let ?inp = "idir @ [filename]" and ?out = "odir @ [fst (splitext filename) @ ''.mp3'']"
  let ?tmp = "mktemp cfs"
  assume a: "compress_loop crun mktemp ob mb idir odir cfs0 before = (n1, ff1, cfs)
      \<and> str_lower (snd (splitext filename)) \<in> set audio_extensions
      \<and> os_path_isfile cfs ?inp
      \<and> (crun (opus_cmd ?inp ob ?tmp) (cfs(?tmp \<mapsto> File 0)) = (TimeoutExpired, cfs1)
          \<or> (\<exists>err fsm.
                crun (opus_cmd ?inp ob ?tmp) (cfs(?tmp \<mapsto> File 0)) = (CompletedProcess 0 err, fsm)
                \<and> os_path_exists fsm ?tmp \<and> 0 < os_path_getsize fsm ?tmp
                \<and> crun (mp3_cmd ?tmp mb ?out) fsm = (TimeoutExpired, cfs1)))
      \<and> \<not> os_path_isdir cfs1 ?tmp"
  have nd: "\<not> os_path_isdir cfs1 ?tmp"
    using a by simp
  have ex: "os_path_exists cfs ?inp" using a by (simp add: isfile_exists)
  have st: "crun (opus_cmd ?inp ob ?tmp) (cfs(?tmp \<mapsto> File 0)) = (TimeoutExpired, cfs1)
          \<or> (\<exists>err fsm.
                crun (opus_cmd ?inp ob ?tmp) (cfs(?tmp \<mapsto> File 0)) = (CompletedProcess 0 err, fsm)
                \<and> os_path_exists fsm ?tmp \<and> 0 < os_path_getsize fsm ?tmp
                \<and> crun (mp3_cmd ?tmp mb ?out) fsm = (TimeoutExpired, cfs1))"
    using a by simp
  show c: "two_stage_compress crun cfs ?inp ?out ob mb ?tmp
             = ((False, CompressTimeout), cfs1(?tmp := None))"
    using ex st nd by (rule two_stage_timeout)
  from a have b: "compress_loop crun mktemp ob mb idir odir cfs0 before = (n1, ff1, cfs)"
    and e: "str_lower (snd (splitext filename)) \<in> set audio_extensions"
    and f: "os_path_isfile cfs ?inp" by simp_all
  show "compress_loop crun mktemp ob mb idir odir cfs0 (before @ filename # rest) =
            (case compress_loop crun mktemp ob mb idir odir (cfs1(?tmp := None)) rest of
               (n2, ff2, fs2) \<Rightarrow> (n1 + n2, ff1 @ (filename, CompressTimeout) # ff2, fs2))"
    using b e f c by (rule compress_loop_timeout_general)
qed simp_all

lemma out_dir_exists:
  assumes "os_path_isdir fs [''out'']"
  shows "os_makedirs fs [''out''] = Inr fs"
  using assms by (simp add: os_makedirs_existing)

lemma convert_a:
  assumes "os_path_isdir fs [''out'']" and "os_path_exists fs [''in'', ''a.mp4'']"
  shows "convert_video_to_audio tool_timeout_c ''ffmpeg'' fs task_a =
           Inr ((True, ConvertOK), fs([''out'', ''a.mp3''] \<mapsto> File 600))"
  using assms
  by (simp add: convert_video_to_audio_def task_a_def make_task_def default_options_def
        os_path_dirname_def out_dir_exists os_path_exists_def os_path_getsize_def
        AUDIO_FORMATS_def build_cmd_def path_str_def tool_timeout_c_def
        truthy_str_def truthy_int_def)

lemma convert_b:
  assumes "os_path_isdir fs [''out'']" and "os_path_exists fs [''in'', ''b.mp4'']"
  shows "convert_video_to_audio tool_timeout_c ''ffmpeg'' fs task_b =
           Inr ((True, ConvertOK), fs([''out'', ''b.mp3''] \<mapsto> File 700))"
  using assms
  by (simp add: convert_video_to_audio_def task_b_def make_task_def default_options_def
        os_path_dirname_def out_dir_exists os_path_exists_def os_path_getsize_def
        AUDIO_FORMATS_def build_cmd_def path_str_def tool_timeout_c_def
        truthy_str_def truthy_int_def)

lemma convert_c:
  assumes "os_path_isdir fs [''out'']" and "os_path_exists fs [''in'', ''c.avi'']"
  shows "convert_video_to_audio tool_timeout_c ''ffmpeg'' fs task_c =
           Inr ((False, ConvertTimeout), fs)"
  using assms
  by (simp add: convert_video_to_audio_def task_c_def make_task_def default_options_def
        os_path_dirname_def out_dir_exists os_path_exists_def os_path_getsize_def
        AUDIO_FORMATS_def build_cmd_def path_str_def tool_timeout_c_def
        truthy_str_def truthy_int_def)

lemma scenario_dirs:
  "os_path_isdir fs_videos [''out'']" "os_path_isdir fs_a_done [''out'']"
  "os_path_isdir fs_b_first [''out'']" "os_path_isdir fs_ab_done [''out'']"
  "os_path_exists fs_videos [''in'', ''a.mp4'']" "os_path_exists fs_b_first [''in'', ''a.mp4'']"
  "os_path_exists fs_videos [''in'', ''b.mp4'']" "os_path_exists fs_a_done [''in'', ''b.mp4'']"
  "os_path_exists fs_videos [''in'', ''c.avi'']" "os_path_exists fs_a_done [''in'', ''c.avi'']"
  "os_path_exists fs_ab_done [''in'', ''c.avi'']"
  by (simp_all add: os_path_isdir_def os_path_exists_def fs_videos_def fs_a_done_def
        fs_b_first_def fs_ab_done_def)

lemma run_a: "run_sequential tool_timeout_c ''ffmpeg'' fs_videos [task_a] = Inr (1, 0, [], fs_a_done)"
  by (simp add: convert_a scenario_dirs fs_a_done_def)

lemma run_b_after_a:
  "run_sequential tool_timeout_c ''ffmpeg'' fs_a_done [task_b] = Inr (1, 0, [], fs_ab_done)"
  by (simp add: convert_b scenario_dirs) (simp add: fs_a_done_def fs_ab_done_def)

lemma pooled_a_b:
  "run_pooled tool_timeout_c ''ffmpeg'' pick_last fs_videos [task_a, task_b] =
     (2, 0, [], fs_b_first([''out'', ''a.mp3''] \<mapsto> File 600))"
proof -
  have 0: "run_pooled tool_timeout_c ''ffmpeg'' pick_last fs [] = (0, 0, [], fs)" for fs
    by (simp add: run_pooled.simps)
  have 1: "run_pooled tool_timeout_c ''ffmpeg'' pick_last fs_b_first [task_a] =
             (1, 0, [], fs_b_first([''out'', ''a.mp3''] \<mapsto> File 600))"
    by (subst run_pooled.simps) (simp add: pick_last_def convert_a scenario_dirs 0)
  show ?thesis
    by (subst run_pooled.simps)
       (simp add: pick_last_def convert_b scenario_dirs 1 fs_b_first_def[symmetric])
qed

lemma isfile_wavs:
  "os_path_isfile fs_wavs [''in'', ''a.wav'']"
  by (simp add: os_path_isfile_def fs_wavs_def)

lemma compress_b_after_timeout:
  "compress_loop tool_timeout_a_wav mktemp_fixed ''6k'' ''16k'' [''in''] [''out'']
     ((fs_wavs([''tmp1.opus''] \<mapsto> File 0))([''tmp1.opus''] := None)) [''b.wav''] =
     (1, [], (fs_wavs([''tmp1.opus''] := None))([''out'', ''b.mp3''] \<mapsto> File 4096))"
  by (simp add: splitext_wavs mktemp_fixed_def two_stage_compress_def two_stage_body_def
        tool_timeout_a_wav_def opus_cmd_def mp3_cmd_def path_str_def os_path_isfile_def
        os_path_exists_def os_path_getsize_def os_unlink_def fs_wavs_def fun_upd_twist)

theorem timeout_fails_job_only_witness:
  "run_sequential tool_timeout_c ''ffmpeg'' fs_videos [task_a] = Inr (1, 0, [], fs_a_done)
   \<and> os_path_exists fs_a_done (video_path task_c)
   \<and> os_makedirs fs_a_done (os_path_dirname (audio_path task_c)) = Inr fs_a_done
   \<and> overwrite task_c
   \<and> AUDIO_FORMATS (audio_format task_c) = Some mp3_config
   \<and> tool_timeout_c (build_cmd ''ffmpeg'' mp3_config task_c) fs_a_done
        = (TimeoutExpired, fs_a_done)
   \<and> run_sequential tool_timeout_c ''ffmpeg'' fs_videos ([task_a] @ task_c # [task_b])
        = Inr (2, 1, [(''c.avi'', ConvertTimeout)], fs_ab_done)
   \<and> [task_a, task_b, task_c] ! (pick_last [task_a, task_b, task_c] mod 3) = task_c
   \<and> os_path_exists fs_videos (video_path task_c)
   \<and> os_makedirs fs_videos (os_path_dirname (audio_path task_c)) = Inr fs_videos
   \<and> tool_timeout_c (build_cmd ''ffmpeg'' mp3_config task_c) fs_videos
        = (TimeoutExpired, fs_videos)
   \<and> run_pooled tool_timeout_c ''ffmpeg'' pick_last fs_videos [task_a, task_b, task_c]
        = (2, 1, [(''c.avi'', ConvertTimeout)], fs_b_first([''out'', ''a.mp3''] \<mapsto> File 600))
   \<and> compress_loop tool_timeout_a_wav mktemp_fixed ''6k'' ''16k'' [''in''] [''out''] fs_wavs []
        = (0, [], fs_wavs)
   \<and> str_lower (snd (splitext ''a.wav'')) \<in> set audio_extensions
   \<and> os_path_isfile fs_wavs ([''in''] @ [''a.wav''])
   \<and> tool_timeout_a_wav (opus_cmd ([''in''] @ [''a.wav'']) ''6k'' (mktemp_fixed fs_wavs))
          (fs_wavs(mktemp_fixed fs_wavs \<mapsto> File 0))
        = (TimeoutExpired, fs_wavs([''tmp1.opus''] \<mapsto> File 0))
   \<and> \<not> os_path_isdir (fs_wavs([''tmp1.opus''] \<mapsto> File 0)) (mktemp_fixed fs_wavs)
   \<and> compress_loop tool_timeout_a_wav mktemp_fixed ''6k'' ''16k'' [''in''] [''out''] fs_wavs
          ([] @ ''a.wav'' # [''b.wav''])
        = (1, [(''a.wav'', CompressTimeout)],
           (fs_wavs([''tmp1.opus''] := None))([''out'', ''b.mp3''] \<mapsto> File 4096))"
proof -
  have vc: "video_path task_c = [''in'', ''c.avi'']" "audio_path task_c = [''out'', ''c.mp3'']"
    "overwrite task_c" "audio_format task_c = ''mp3''"
    by (simp_all add: task_c_def make_task_def default_options_def)
  have a2: "os_path_exists fs_a_done (video_path task_c)"
    by (simp add: vc scenario_dirs)
  have a3: "os_makedirs fs_a_done (os_path_dirname (audio_path task_c)) = Inr fs_a_done"
    by (simp add: vc os_path_dirname_def out_dir_exists scenario_dirs)
  have a5: "AUDIO_FORMATS (audio_format task_c) = Some mp3_config"
    by (simp add: vc AUDIO_FORMATS_def mp3_config_def)
  have a6: "tool_timeout_c (build_cmd ''ffmpeg'' mp3_config task_c) fs = (TimeoutExpired, fs)" for fs
    by (simp add: tool_timeout_c_def build_cmd_def path_str_def vc)
  have b1: "[task_a, task_b, task_c] ! (pick_last [task_a, task_b, task_c] mod 3) = task_c"
    by (simp add: pick_last_def)
  have b2: "os_path_exists fs_videos (video_path task_c)"
    by (simp add: vc scenario_dirs)
  have b3: "os_makedirs fs_videos (os_path_dirname (audio_path task_c)) = Inr fs_videos"
    by (simp add: vc os_path_dirname_def out_dir_exists scenario_dirs)
  have c1: "compress_loop tool_timeout_a_wav mktemp_fixed ''6k'' ''16k'' [''in''] [''out''] fs_wavs []
        = (0, [], fs_wavs)"
    by simp
  have c2: "str_lower (snd (splitext ''a.wav'')) \<in> set audio_extensions"
    by (simp add: splitext_wavs)
  have c3: "os_path_isfile fs_wavs ([''in''] @ [''a.wav''])"
    by (simp add: isfile_wavs)
  have c4: "tool_timeout_a_wav (opus_cmd ([''in''] @ [''a.wav'']) ''6k'' (mktemp_fixed fs_wavs))
          (fs_wavs(mktemp_fixed fs_wavs \<mapsto> File 0))
        = (TimeoutExpired, fs_wavs([''tmp1.opus''] \<mapsto> File 0))"
    by (simp add: tool_timeout_a_wav_def opus_cmd_def path_str_def mktemp_fixed_def)
  have c5: "\<not> os_path_isdir (fs_wavs([''tmp1.opus''] \<mapsto> File 0)) (mktemp_fixed fs_wavs)"
    by (simp add: os_path_isdir_def mktemp_fixed_def)
  have bn: "os_path_basename (video_path task_c) = ''c.avi''"
    by (simp add: vc os_path_basename_def)
  note T = timeout_fails_job_only[where run = tool_timeout_c and ff = "''ffmpeg''"
      and fs = fs_videos and pre = "[task_a]" and ?s1.0 = 1 and ?f1.0 = 0 and ?pr1.0 = "[]"
      and ?fs1.0 = fs_a_done and t = task_c and ?fs2.0 = fs_a_done and cfg = mp3_config
      and ?fs3.0 = fs_a_done and post = "[task_b]"
      and pending = "[task_a, task_b, task_c]" and pick = pick_last and pfs = fs_videos
      and ?pfs2.0 = fs_videos and pcfg = mp3_config and prun = tool_timeout_c
      and pff = "''ffmpeg''" and ?pfs3.0 = fs_videos
      and crun = tool_timeout_a_wav and mktemp = mktemp_fixed and ob = "''6k''"
      and mb = "''16k''" and idir = "[''in'']" and odir = "[''out'']" and ?cfs0.0 = fs_wavs
      and before = "[]" and ?n1.0 = 0 and ?ff1.0 = "[]" and cfs = fs_wavs
      and filename = "''a.wav''" and ?cfs1.0 = "fs_wavs([''tmp1.opus''] \<mapsto> File 0)"
      and rest = "[''b.wav'']"]
  have hA: "run_sequential tool_timeout_c ''ffmpeg'' fs_videos [task_a] = Inr (1, 0, [], fs_a_done)
      \<and> os_path_exists fs_a_done (video_path task_c)
      \<and> os_makedirs fs_a_done (os_path_dirname (audio_path task_c)) = Inr fs_a_done
      \<and> (overwrite task_c \<or> \<not> os_path_exists fs_a_done (audio_path task_c))
      \<and> AUDIO_FORMATS (audio_format task_c) = Some mp3_config
      \<and> tool_timeout_c (build_cmd ''ffmpeg'' mp3_config task_c) fs_a_done
           = (TimeoutExpired, fs_a_done)"
    using run_a a2 a3 vc(3) a5 a6[of fs_a_done] by blast
  have A: "run_sequential tool_timeout_c ''ffmpeg'' fs_videos ([task_a] @ task_c # [task_b])
        = Inr (2, 1, [(''c.avi'', ConvertTimeout)], fs_ab_done)"
    using T[THEN conjunct1, THEN mp, OF hA, THEN conjunct2]
    by (simp add: run_b_after_a bn del: run_sequential.simps)
  have hB: "[task_a, task_b, task_c] \<noteq> []
      \<and> os_path_exists fs_videos
           (video_path ([task_a, task_b, task_c]
              ! (pick_last [task_a, task_b, task_c] mod length [task_a, task_b, task_c])))
      \<and> os_makedirs fs_videos
           (os_path_dirname (audio_path ([task_a, task_b, task_c]
              ! (pick_last [task_a, task_b, task_c] mod length [task_a, task_b, task_c]))))
           = Inr fs_videos
      \<and> (overwrite ([task_a, task_b, task_c]
              ! (pick_last [task_a, task_b, task_c] mod length [task_a, task_b, task_c]))
           \<or> \<not> os_path_exists fs_videos
                (audio_path ([task_a, task_b, task_c]
                   ! (pick_last [task_a, task_b, task_c] mod length [task_a, task_b, task_c]))))
      \<and> AUDIO_FORMATS (audio_format ([task_a, task_b, task_c]
              ! (pick_last [task_a, task_b, task_c] mod length [task_a, task_b, task_c])))
           = Some mp3_config
      \<and> tool_timeout_c (build_cmd ''ffmpeg'' mp3_config ([task_a, task_b, task_c]
              ! (pick_last [task_a, task_b, task_c] mod length [task_a, task_b, task_c])))
           fs_videos = (TimeoutExpired, fs_videos)"
    using b1 b2 b3 vc(3) a5 a6[of fs_videos] by simp
  have B: "run_pooled tool_timeout_c ''ffmpeg'' pick_last fs_videos [task_a, task_b, task_c]
        = (2, 1, [(''c.avi'', ConvertTimeout)], fs_b_first([''out'', ''a.mp3''] \<mapsto> File 600))"
    using T[THEN conjunct2, THEN conjunct1, THEN mp, OF hB] b1
    by (simp add: pooled_a_b bn pick_last_def)
  have hC: "compress_loop tool_timeout_a_wav mktemp_fixed ''6k'' ''16k'' [''in''] [''out''] fs_wavs []
        = (0, [], fs_wavs)
      \<and> str_lower (snd (splitext ''a.wav'')) \<in> set audio_extensions
      \<and> os_path_isfile fs_wavs ([''in''] @ [''a.wav''])
      \<and> (tool_timeout_a_wav (opus_cmd ([''in''] @ [''a.wav'']) ''6k'' (mktemp_fixed fs_wavs))
             (fs_wavs(mktemp_fixed fs_wavs \<mapsto> File 0))
           = (TimeoutExpired, fs_wavs([''tmp1.opus''] \<mapsto> File 0))
          \<or> (\<exists>err fsm.
                tool_timeout_a_wav (opus_cmd ([''in''] @ [''a.wav'']) ''6k'' (mktemp_fixed fs_wavs))
                  (fs_wavs(mktemp_fixed fs_wavs \<mapsto> File 0)) = (CompletedProcess 0 err, fsm)
                \<and> os_path_exists fsm (mktemp_fixed fs_wavs)
                \<and> 0 < os_path_getsize fsm (mktemp_fixed fs_wavs)
                \<and> tool_timeout_a_wav
                     (mp3_cmd (mktemp_fixed fs_wavs) ''16k''
                        ([''out''] @ [fst (splitext ''a.wav'') @ ''.mp3''])) fsm
                     = (TimeoutExpired, fs_wavs([''tmp1.opus''] \<mapsto> File 0))))
      \<and> \<not> os_path_isdir (fs_wavs([''tmp1.opus''] \<mapsto> File 0)) (mktemp_fixed fs_wavs)"
    using c1 c2 c3 c4 c5 by blast
  have mk: "mktemp_fixed fs_wavs = [''tmp1.opus'']" by (simp add: mktemp_fixed_def)
  have C: "compress_loop tool_timeout_a_wav mktemp_fixed ''6k'' ''16k'' [''in''] [''out''] fs_wavs
          ([] @ ''a.wav'' # [''b.wav''])
        = (1, [(''a.wav'', CompressTimeout)],
           (fs_wavs([''tmp1.opus''] := None))([''out'', ''b.mp3''] \<mapsto> File 4096))"
    using T[THEN conjunct2, THEN conjunct2, THEN conjunct1, THEN mp, OF hC, THEN conjunct2]
    unfolding mk
    by (simp only: compress_b_after_timeout) simp
  from run_a a2 a3 vc(3) a5 a6[of fs_a_done] A b1 b2 b3 a6[of fs_videos] B c1 c2 c3 c4 c5 C
  show ?thesis by blast
qed

text \<open>
  The messages of a timed-out job do not contain the word "timeout": they are the Chinese
  texts given above.
\<close>

theorem timeout_message_lacks_word:
  "(case convert_video_to_audio tool_timeout_c ''ffmpeg'' fs_videos task_c of
      Inr ((ok, m), fs') \<Rightarrow>
        \<not> ok \<and> message_text m
                 = Some [36716, 25442, 36229, 26102, 32, 40, 36229, 36807, 49, 23567, 26102, 41]
        \<and> \<not> str_contains
               [36716, 25442, 36229, 26102, 32, 40, 36229, 36807, 49, 23567, 26102, 41]
               timeout_word
    | Inl e \<Rightarrow> False)
   \<and> (case two_stage_compress tool_timeout_a_wav fs_wavs [''in'', ''a.wav''] [''out'', ''a.mp3'']
             ''6k'' ''16k'' [''tmp1.opus''] of
        ((ok, m), fs') \<Rightarrow>
          \<not> ok \<and> cmessage_text m = Some [36229, 26102]
          \<and> \<not> str_contains [36229, 26102] timeout_word)"
proof -
  have a: "convert_video_to_audio tool_timeout_c ''ffmpeg'' fs_videos task_c =
             Inr ((False, ConvertTimeout), fs_videos)"
    by (simp add: convert_c scenario_dirs)
  have b: "two_stage_compress tool_timeout_a_wav fs_wavs [''in'', ''a.wav''] [''out'', ''a.mp3'']
             ''6k'' ''16k'' [''tmp1.opus''] =
           ((False, CompressTimeout), (fs_wavs([''tmp1.opus''] \<mapsto> File 0))([''tmp1.opus''] := None))"
    by (intro two_stage_timeout)
       (simp_all add: tool_timeout_a_wav_def opus_cmd_def path_str_def os_path_isdir_def
          os_path_exists_def fs_wavs_def)
  have c: "\<not> str_contains
               [36716, 25442, 36229, 26102, 32, 40, 36229, 36807, 49, 23567, 26102, 41]
               timeout_word"
    by (simp add: timeout_word_def)
  have d: "\<not> str_contains [36229, 26102] timeout_word"
    by (simp add: timeout_word_def)
  show ?thesis by (simp add: a b c d del: str_contains.simps)
qed

text \<open>
  The run of the three videos with the default of two workers: the job of \<^verbatim>\<open>c.avi\<close>
  completes first and times out, the other two files are converted.
\<close>

lemma scenario_three_with_default_workers:
  "(case batch_convert tool_timeout_c pick_last ''ffmpeg'' fs_videos listing_videos [''in'']
           (Some [''out'']) default_options of
      Inr (StatsDict st, printed, fs') \<Rightarrow>
        total st = 3 \<and> success st = 2 \<and> failed st = 1 \<and> skipped st = 0
        \<and> printed = [(''c.avi'', ConvertTimeout)]
        \<and> fs' [''out'', ''a.mp3''] = Some (File 600)
        \<and> fs' [''out'', ''b.mp3''] = Some (File 700)
        \<and> fs' [''out'', ''c.mp3''] = None
    | _ \<Rightarrow> False)"
  by code_simp

section \<open>Transcription: short texts and temporary audio\<close>

lemma strip_abc: "strip [97, 98, 99] = [97, 98, 99]"
  by (simp add: strip_def strip_with_def py_isspace_def)

lemma stem_a_mp4: "stem (path_name [''in'', ''a.mp4'']) = ''a''"
  by code_simp

text \<open>A file whose markdown exists is skipped by audio2text.py without any invocation.\<close>

lemma a2t_skips_existing:
  assumes "os_path_exists fs (out_dir @ [stem (path_name mp4) @ ''.md''])"
  shows "a2t_process_file run asr keep model audio_dir out_dir fs mp4 = Inr (AlreadyDone, fs)"
  using assms by (simp add: a2t_process_file_def Let_def)






text \<open>
  Claim C4. The temporary file of a job is removed on every exit path. The transcription
  scripts do not keep to this: the removal of the extracted audio is the last statement of
  the loop body, and the passes that end early skip it. With the audio not to be kept, an
  extraction that writes 500 bytes and a recognised text of three characters
  (audio2text.py) or an empty text (soundext.py), the file is skipped and the audio file
  stays in the temporary directory.
\<close>

theorem temporary_audio_left_behind:
  "(case a2t_process_file tool_extract asr_abc False ''whisper'' [''out'', ''temp_audio''] [''out'']
           fs_mp4 [''in'', ''a.mp4''] of
      Inr (outcome, fs') \<Rightarrow>
        outcome = TextTooShort \<and> fs' [''out'', ''temp_audio'', ''a.mp3''] = Some (File 500)
    | Inl e \<Rightarrow> False)
   \<and> (case soundext_process_file None tool_extract asr_silent False [''out'', ''temp_audio'']
             [''out''] fs_mp4 [''in'', ''a.mp4''] of
        Inr (outcome, fs') \<Rightarrow>
          outcome = TextTooShort \<and> fs' [''out'', ''temp_audio'', ''a.mp3''] = Some (File 500)
      | Inl e \<Rightarrow> False)"
  by (simp add: a2t_process_file_def soundext_process_file_def Let_def stem_a_mp4
        extract_audio_def extract_audio_from_mp4_def tool_extract_def transcribe_def
        asr_abc_def asr_silent_def strip_abc os_path_exists_def os_path_getsize_def fs_mp4_def)

theorem temporary_audio_left_behind_witness:
  "(\<exists>fs'. a2t_process_file tool_extract asr_abc False ''whisper'' [''out'', ''temp_audio'']
            [''out''] fs_mp4 [''in'', ''a.mp4''] = Inr (TextTooShort, fs')
          \<and> os_path_isfile fs' [''out'', ''temp_audio'', ''a.mp3''])
   \<and> (\<exists>fs'. soundext_process_file None tool_extract asr_silent False [''out'', ''temp_audio'']
              [''out''] fs_mp4 [''in'', ''a.mp4''] = Inr (TextTooShort, fs')
            \<and> os_path_isfile fs' [''out'', ''temp_audio'', ''a.mp3''])"
  using temporary_audio_left_behind
  by (auto simp: os_path_isfile_def split: sum.splits prod.splits)

text \<open>
  The other cleanup paths remove the file: \<^verbatim>\<open>two_stage_compress\<close> leaves no regular file at
  the name of its temporary Opus file, whatever the tool does, and a pass of a transcription
  script that reaches the save step removes the audio when it is not to be kept.
\<close>

lemma two_stage_removes_temp:
  assumes "\<not> os_path_isfile fs tmp"
  shows "\<not> os_path_isfile (snd (two_stage_compress run fs inp outp ob mb tmp)) tmp"
proof (cases "os_path_exists fs inp")
  case False
  with assms show ?thesis by (simp add: two_stage_compress_def)
next
  case True
  obtain ex fs2 where b: "two_stage_body run (fs(tmp \<mapsto> File 0)) inp outp ob mb tmp
                            (os_path_getsize fs inp) = (ex, fs2)"
    by (cases "two_stage_body run (fs(tmp \<mapsto> File 0)) inp outp ob mb tmp (os_path_getsize fs inp)")
  show ?thesis
  proof (cases "fs2 tmp")
    case None
    with True b show ?thesis
      by (auto simp: two_stage_compress_def os_path_exists_def os_path_isfile_def
            split: body_exit.splits)
  next
    case (Some n)
    with True b show ?thesis
      by (cases n)
         (auto simp: two_stage_compress_def os_path_exists_def os_path_isfile_def os_unlink_def
            split: body_exit.splits)
  qed
qed

lemma unlink_removes:
  assumes "os_unlink fs p = Inr fs'"
  shows "\<not> os_path_exists fs' p"
  using assms
  by (auto simp: os_unlink_def os_path_exists_def split: option.splits node.splits)

lemma a2t_cleans_after_save:
  assumes "a2t_process_file run asr False model audio_dir out_dir fs mp4 = Inr (outcome, fs')"
    and "outcome = Saved \<or> outcome = SaveFailed"
  shows "\<not> os_path_exists fs' (audio_dir @ [stem (path_name mp4) @ ''.mp3''])"
  using assms
  by (auto simp: a2t_process_file_def Let_def
        split: if_splits prod.splits sum.splits dest: unlink_removes)

lemma soundext_cleans_after_save:
  assumes "soundext_process_file moviepy run asr False audio_dir out_dir fs mp4 = Inr (outcome, fs')"
    and "outcome = Saved \<or> outcome = SaveFailed"
  shows "\<not> os_path_exists fs' (audio_dir @ [stem (path_name mp4) @ ''.mp3''])"
  using assms
  by (auto simp: soundext_process_file_def Let_def
        split: if_splits prod.splits sum.splits dest: unlink_removes)

end
